theory Spec2Isabelle
  imports Main "HOL-Library.AList" "HOL-Library.Sublist"
begin

section \<open>Values of the program\<close>

text \<open>
  The server is JavaScript. The values that flow through it are JSON values: the bodies
  that \<^verbatim>\<open>express.json()\<close> parses, the objects the tool handlers build, and
  what \<^verbatim>\<open>JSON.parse\<close> returns for a remote body. An object is the list of its
  own properties in insertion order. Numbers are integers here: the only arithmetic the
  code does on a number is counting a length and printing it with \<^verbatim>\<open>String\<close>.
  JavaScript's \<^verbatim>\<open>undefined\<close> is \<open>None\<close> of \<open>json option\<close>.
\<close>

datatype json =
    JNull
  | JBool bool
  | JNum int
  | JStr string
  | JArr "json list"
  | JObj "(string \<times> json) list"

text \<open>What a \<^verbatim>\<open>throw\<close> carries; \<^verbatim>\<open>String(e)\<close> prints name and message.\<close>

datatype exn =
    Error string
  | TypeError string
  | SyntaxError string
  | FetchError string

fun String_exn :: "exn \<Rightarrow> string" where
  "String_exn (Error m) = ''Error: '' @ m"
| "String_exn (TypeError m) = ''TypeError: '' @ m"
| "String_exn (SyntaxError m) = ''SyntaxError: '' @ m"
| "String_exn (FetchError m) = ''FetchError: '' @ m"

text \<open>\<^verbatim>\<open>if (v)\<close>, \<^verbatim>\<open>v ? a : b\<close>, \<^verbatim>\<open>!v\<close> on a JSON value.\<close>

fun truthy :: "json \<Rightarrow> bool" where
  "truthy JNull = False"
| "truthy (JBool b) = b"
| "truthy (JNum n) = (n \<noteq> 0)"
| "truthy (JStr s) = (s \<noteq> [])"
| "truthy (JArr xs) = True"
| "truthy (JObj fs) = True"

section \<open>The session registry: \<^verbatim>\<open>/sse\<close> and \<^verbatim>\<open>/messages\<close>\<close>

text \<open>
  Both source files end with the same routing code:
  \<^verbatim>\<open>
  const transports = {}; // sessionId -> transport
  app.get("/sse", async (req, res) => {
    const transport = new SSEServerTransport("/messages", res);
    transports[transport.sessionId] = transport;
    res.on("close", () => { delete transports[transport.sessionId]; });
    await server.connect(transport);
  });
  app.post("/messages", async (req, res) => {
    const sessionId = req.query.sessionId;
    const transport = transports[sessionId];
    if (!transport) return res.status(400).send("No transport found for sessionId");
    await transport.handlePostMessage(req, res, req.body);
  });
  \<close>
  A transport is the SDK's object: its session identifier (the SDK draws it with
  \<^verbatim>\<open>randomUUID()\<close>) and the response stream it owns.
\<close>

record 'r transport =
  sessionId :: string
  stream :: 'r

text \<open>
  \<^verbatim>\<open>transports\<close> is an object literal, so its prototype is
  \<^verbatim>\<open>Object.prototype\<close>. The registry is the map of its own properties; a read
  \<^verbatim>\<open>transports[k]\<close> of a key that is not an own property goes on to the
  prototype, which has the members below (each one a function, \<^verbatim>\<open>__proto__\<close>
  the prototype object itself: all truthy, none with a \<^verbatim>\<open>handlePostMessage\<close>).
\<close>

type_synonym 'r registry = "string \<rightharpoonup> 'r transport"

definition object_prototype_keys :: "string list" where
  "object_prototype_keys =
     [''constructor'', ''__proto__'', ''hasOwnProperty'', ''isPrototypeOf'',
      ''propertyIsEnumerable'', ''toLocaleString'', ''toString'', ''valueOf'',
      ''__defineGetter__'', ''__defineSetter__'', ''__lookupGetter__'',
      ''__lookupSetter__'']"

datatype 'r lookup =
    Undefined
  | Own "'r transport"
  | Inherited string

definition get_transport :: "'r registry \<Rightarrow> string \<Rightarrow> 'r lookup" where
  "get_transport transports k =
     (case transports k of
        Some t \<Rightarrow> Own t
      | None \<Rightarrow> if k \<in> set object_prototype_keys then Inherited k else Undefined)"

text \<open>
  \<^verbatim>\<open>app.get("/sse")\<close> stores the new transport under its identifier. An
  assignment to the key \<^verbatim>\<open>__proto__\<close> would set the prototype instead of an own
  property; the SDK's identifiers are UUIDs, so the theorems about opening assume that
  the identifier is no member of \<open>object_prototype_keys\<close>. The close handler deletes
  the own property of the transport's identifier; \<^verbatim>\<open>delete\<close> of a property that
  is not there does nothing and raises nothing.
\<close>

definition app_get_sse :: "'r registry \<Rightarrow> 'r transport \<Rightarrow> 'r registry" where
  "app_get_sse transports t = transports(sessionId t \<mapsto> t)"

definition on_close :: "'r registry \<Rightarrow> 'r transport \<Rightarrow> 'r registry" where
  "on_close transports t = transports(sessionId t := None)"

text \<open>
  What one POST to \<^verbatim>\<open>/messages\<close> does. \<open>sid\<close> is the property key that
  \<^verbatim>\<open>req.query.sessionId\<close> is read as (the string of the query parameter;
  \<^verbatim>\<open>undefined\<close> gives the key \<open>''undefined''\<close>), \<open>body\<close> is
  \<^verbatim>\<open>req.body\<close>. The handler either answers with a status and a text, or hands
  request and body to one transport's \<^verbatim>\<open>handlePostMessage\<close>, or throws: calling
  the missing \<^verbatim>\<open>handlePostMessage\<close> of an inherited member is a TypeError.
\<close>

datatype 'r effect =
    Send_status nat string
  | HandlePostMessage "'r transport" json
  | Throw exn

definition app_post_messages :: "'r registry \<Rightarrow> string \<Rightarrow> json \<Rightarrow> 'r effect" where
  "app_post_messages transports sid body =
     (case get_transport transports sid of
        Undefined \<Rightarrow> Send_status 400 ''No transport found for sessionId''
      | Own t \<Rightarrow> HandlePostMessage t body
      | Inherited k \<Rightarrow> Throw (TypeError ''transport.handlePostMessage is not a function''))"

section \<open>JavaScript operators the tool handlers use\<close>

text \<open>
  \<open>get_prop v k\<close> is the property read \<^verbatim>\<open>v.k\<close> on a value that is neither
  \<^verbatim>\<open>null\<close> nor \<^verbatim>\<open>undefined\<close>. The handlers read only the keys
  \<^verbatim>\<open>results\<close>, \<^verbatim>\<open>paging\<close> and \<^verbatim>\<open>length\<close>, none of which a
  prototype supplies for an object, a number or a boolean; an array and a string have
  their \<^verbatim>\<open>length\<close>.
\<close>

fun get_prop :: "json \<Rightarrow> string \<Rightarrow> json option" where
  "get_prop (JObj fs) k = map_of fs k"
| "get_prop (JArr xs) k = (if k = ''length'' then Some (JNum (int (length xs))) else None)"
| "get_prop (JStr s) k = (if k = ''length'' then Some (JNum (int (length s))) else None)"
| "get_prop JNull k = None"
| "get_prop (JBool b) k = None"
| "get_prop (JNum n) k = None"

text \<open>Optional chaining \<^verbatim>\<open>v?.k\<close> and nullish coalescing \<^verbatim>\<open>v ?? d\<close>.\<close>

definition opt_chain :: "json option \<Rightarrow> string \<Rightarrow> json option" where
  "opt_chain v k =
     (case v of None \<Rightarrow> None | Some JNull \<Rightarrow> None | Some x \<Rightarrow> get_prop x k)"

definition nullish :: "json option \<Rightarrow> json \<Rightarrow> json" where
  "nullish v d = (case v of None \<Rightarrow> d | Some JNull \<Rightarrow> d | Some x \<Rightarrow> x)"

text \<open>A parameter default of a destructured argument: \<^verbatim>\<open>({ limit = 20 }) => ...\<close>.\<close>

definition default :: "'a option \<Rightarrow> 'a \<Rightarrow> 'a" where
  "default v d = (case v of None \<Rightarrow> d | Some x \<Rightarrow> x)"

text \<open>\<^verbatim>\<open>if (stage)\<close> on an optional string: absent and empty are both falsy.\<close>

definition given :: "string option \<Rightarrow> bool" where
  "given v = (case v of None \<Rightarrow> False | Some s \<Rightarrow> s \<noteq> [])"

text \<open>
  \<^verbatim>\<open>String(n)\<close> and \<^verbatim>\<open>${n}\<close> of an integer: its decimal digits (JavaScript
  prints so below \<open>10\<^sup>2\<^sup>1\<close>; a status code and a page size are far below).
\<close>

fun digits :: "nat \<Rightarrow> string" where
  "digits n =
     (if n < 10 then [''0123456789'' ! n]
      else digits (n div 10) @ [''0123456789'' ! (n mod 10)])"

declare digits.simps [simp del]

definition String_int :: "int \<Rightarrow> string" where
  "String_int i = (if i < 0 then ''-'' @ digits (nat (- i)) else digits (nat i))"

text \<open>\<^verbatim>\<open>properties.join(",")\<close>.\<close>

fun join_comma :: "string list \<Rightarrow> string" where
  "join_comma [] = []"
| "join_comma [s] = s"
| "join_comma (s # t # ss) = s @ '','' @ join_comma (t # ss)"

text \<open>
  The own enumerable properties that an object spread \<^verbatim>\<open>{ ...v }\<close> copies: the
  fields of an object, the indexed elements of an array, the indexed characters of a
  string, nothing for the rest. \<open>spread base v\<close> is \<^verbatim>\<open>{ ...base, ...v }\<close>: a
  key that is already there keeps its place and takes the new value. The list is in
  insertion order; JavaScript enumerates integer-like keys before the others, so for
  such keys the order of the serialised text differs, the keys and their values do not.
\<close>

fun own_entries :: "json \<Rightarrow> (string \<times> json) list" where
  "own_entries (JObj fs) = fs"
| "own_entries (JArr xs) = zip (map digits [0..<length xs]) xs"
| "own_entries (JStr s) = zip (map digits [0..<length s]) (map (\<lambda>c. JStr [c]) s)"
| "own_entries JNull = []"
| "own_entries (JBool b) = []"
| "own_entries (JNum n) = []"

definition spread :: "(string \<times> json) list \<Rightarrow> json \<Rightarrow> (string \<times> json) list" where
  "spread base v = fold (\<lambda>(k, x) acc. AList.update k x acc) (own_entries v) base"

text \<open>
  The argument spread \<^verbatim>\<open>all.push(...v)\<close> iterates \<open>v\<close>: an array gives its
  elements, a string its characters, anything else is not iterable and throws.
\<close>

fun iterate :: "json \<Rightarrow> exn + json list" where
  "iterate (JArr xs) = Inr xs"
| "iterate (JStr s) = Inr (map (\<lambda>c. JStr [c]) s)"
| "iterate JNull = Inl (TypeError ''Spread syntax requires ...iterable[Symbol.iterator] to be a function'')"
| "iterate (JBool b) = Inl (TypeError ''Spread syntax requires ...iterable[Symbol.iterator] to be a function'')"
| "iterate (JNum n) = Inl (TypeError ''Spread syntax requires ...iterable[Symbol.iterator] to be a function'')"
| "iterate (JObj fs) = Inl (TypeError ''Spread syntax requires ...iterable[Symbol.iterator] to be a function'')"

text \<open>
  \<^verbatim>\<open>JSON.stringify\<close> of an object literal leaves out the properties whose value is
  \<^verbatim>\<open>undefined\<close>.
\<close>

definition defined_fields :: "(string \<times> json option) list \<Rightarrow> (string \<times> json) list" where
  "defined_fields fs = List.map_filter (\<lambda>(k, v). map_option (Pair k) v) fs"

section \<open>The remote API\<close>

text \<open>
  A call of \<^verbatim>\<open>fetch\<close> sends one request to \<^verbatim>\<open>https://api.hubapi.com\<close>
  with the bearer token. The request is its method, the path after the host, the search
  parameters set on the URL and the value that \<^verbatim>\<open>JSON.stringify\<close> serialises
  into the body. The remote is outside the program: \<open>net\<close> gives, for the calls made
  so far and the next request, what \<^verbatim>\<open>fetch\<close> followed by
  \<^verbatim>\<open>res.text()\<close> yields: a rejection (transport error) or a status with the body
  text. The trace records every call with its reply, in the order of the calls.
\<close>

datatype http_method = GET | POST

record request =
  req_method :: http_method
  req_path :: string
  req_query :: "(string \<times> string) list"
  req_body :: "json option"

record response =
  status :: nat
  body_text :: string

definition ok :: "response \<Rightarrow> bool" where
  "ok res = (200 \<le> status res \<and> status res \<le> 299)"

type_synonym reply = "exn + response"

type_synonym trace = "(request \<times> reply) list"

type_synonym net = "trace \<Rightarrow> request \<Rightarrow> reply"

definition fetch :: "net \<Rightarrow> request \<Rightarrow> trace \<Rightarrow> reply \<times> trace" where
  "fetch net req tr = (let rep = net tr req in (rep, tr @ [(req, rep)]))"

text \<open>
  \<^verbatim>\<open>JSON.parse\<close> is a parameter of the model, \<open>JSON_parse\<close>: the parsed value,
  or the message of the SyntaxError it throws.
  \<^verbatim>\<open>
  async function hsPOST(path, body) {
    const res = await fetch(`https://api.hubapi.com${path}`, { method: "POST", ...,
      body: JSON.stringify(body || {}) });
    const text = await res.text();
    if (!res.ok) { throw new Error(`HubSpot ${res.status} ${text}`); }
    try { return JSON.parse(text); } catch { return text; }
  }
  \<close>
\<close>

definition hsPOST ::
  "(string \<Rightarrow> string + json) \<Rightarrow> net \<Rightarrow> string \<Rightarrow> json \<Rightarrow> trace \<Rightarrow> (exn + json) \<times> trace" where
  "hsPOST JSON_parse net path b tr =
     (case fetch net
             \<lparr>req_method = POST, req_path = path, req_query = [],
              req_body = Some (if truthy b then b else JObj [])\<rparr> tr of
        (Inl e, tr') \<Rightarrow> (Inl e, tr')
      | (Inr res, tr') \<Rightarrow>
          if \<not> ok res
          then (Inl (Error (''HubSpot '' @ digits (status res) @ '' '' @ body_text res)), tr')
          else (case JSON_parse (body_text res) of
                  Inl m \<Rightarrow> (Inr (JStr (body_text res)), tr')
                | Inr j \<Rightarrow> (Inr j, tr')))"

text \<open>
  \<^verbatim>\<open>
  async function hsGET(path, query = {}) {
    const url = new URL(`https://api.hubapi.com${path}`);
    Object.entries(query).forEach(([k, v]) => {
      if (v !== undefined && v !== null && v !== "") url.searchParams.set(k, String(v));
    });
    ... as hsPOST ...
  }
  \<close>
  The callers pass strings, numbers and \<^verbatim>\<open>undefined\<close> as query values.
\<close>

datatype qvalue = QUndefined | QStr string | QNum int

fun String_qvalue :: "qvalue \<Rightarrow> string" where
  "String_qvalue QUndefined = ''undefined''"
| "String_qvalue (QStr s) = s"
| "String_qvalue (QNum n) = String_int n"

definition searchParams :: "(string \<times> qvalue) list \<Rightarrow> (string \<times> string) list" where
  "searchParams query =
     fold (\<lambda>(k, v) q.
             if v \<noteq> QUndefined \<and> v \<noteq> QStr [] then AList.update k (String_qvalue v) q else q)
          query []"

definition hsGET ::
  "(string \<Rightarrow> string + json) \<Rightarrow> net \<Rightarrow> string \<Rightarrow> (string \<times> qvalue) list \<Rightarrow> trace
     \<Rightarrow> (exn + json) \<times> trace" where
  "hsGET JSON_parse net path query tr =
     (case fetch net
             \<lparr>req_method = GET, req_path = path, req_query = searchParams query,
              req_body = None\<rparr> tr of
        (Inl e, tr') \<Rightarrow> (Inl e, tr')
      | (Inr res, tr') \<Rightarrow>
          if \<not> ok res
          then (Inl (Error (''HubSpot '' @ digits (status res) @ '' '' @ body_text res)), tr')
          else (case JSON_parse (body_text res) of
                  Inl m \<Rightarrow> (Inr (JStr (body_text res)), tr')
                | Inr j \<Rightarrow> (Inr j, tr')))"

section \<open>\<^verbatim>\<open>chunk\<close> and \<^verbatim>\<open>asText\<close>\<close>

text \<open>
  \<^verbatim>\<open>
  function chunk(arr, size = 90) {
    const out = [];
    for (let i = 0; i < arr.length; i += size) out.push(arr.slice(i, i + size));
    return out;
  }
  \<close>
  With \<^verbatim>\<open>size\<close> 0 and a non-empty array the loop never ends, so the loop is a
  partial function: \<open>None\<close> is not returning.
\<close>

definition slice :: "'a list \<Rightarrow> nat \<Rightarrow> nat \<Rightarrow> 'a list" where
  "slice arr i j = take (j - i) (drop i arr)"

partial_function (option) chunk_from ::
  "'a list \<Rightarrow> nat \<Rightarrow> nat \<Rightarrow> 'a list list \<Rightarrow> 'a list list option" where
  "chunk_from arr sz i out =
     (if i < length arr then chunk_from arr sz (i + sz) (out @ [slice arr i (i + sz)])
      else Some out)"

definition chunk :: "'a list \<Rightarrow> nat \<Rightarrow> 'a list list option" where
  "chunk arr sz = chunk_from arr sz 0 []"

text \<open>
  What a tool handler returns to the SDK is one content item.
  \<^verbatim>\<open>
  function asText(obj, label = null) {
    try {
      const payload = label ? { label, data: obj } : obj;
      return { content: [{ type: "text", text: JSON.stringify(payload) }] };
    } catch (e) { return { content: [{ type: "text", text: String(obj) }] }; }
  }
  \<close>
  \<open>Content_text v\<close> is the item of type text whose text is the serialisation of
  \<open>v\<close>; \<^verbatim>\<open>JSON.stringify\<close> does not throw on a JSON value. \<open>Content_json v\<close>
  is the item of type json that the older file returns.
\<close>

datatype tool_result = Content_text json | Content_json json

definition asText :: "json \<Rightarrow> string option \<Rightarrow> tool_result" where
  "asText obj label =
     Content_text
       (case label of
          None \<Rightarrow> obj
        | Some l \<Rightarrow> if l \<noteq> [] then JObj [(''label'', JStr l), (''data'', obj)] else obj)"

text \<open>The object literal of every catch block: \<^verbatim>\<open>{ ok: false, error: String(e) }\<close>.\<close>

definition error_envelope :: "exn \<Rightarrow> json" where
  "error_envelope e = JObj [(''ok'', JBool False), (''error'', JStr (String_exn e))]"

text \<open>
  The object literal that the five search handlers build from the remote data:
  \<^verbatim>\<open>
  { ok: true, count: data?.results?.length ?? 0, results: data?.results ?? [],
    paging: data?.paging ?? null }
  \<close>
\<close>

definition search_envelope :: "json \<Rightarrow> json" where
  "search_envelope data =
     JObj [(''ok'', JBool True),
           (''count'', nullish (opt_chain (opt_chain (Some data) ''results'') ''length'') (JNum 0)),
           (''results'', nullish (opt_chain (Some data) ''results'') (JArr [])),
           (''paging'', nullish (opt_chain (Some data) ''paging'') JNull)]"

section \<open>The tool handlers\<close>

text \<open>
  Each handler receives the arguments that passed its zod schema; an optional argument
  that was not given is \<open>None\<close>, and the destructuring defaults are applied here as
  in the source. A handler's whole body is one \<^verbatim>\<open>try { ... } catch (e) { ... }\<close>:
  the \<open>Inl\<close> branch of each \<^theory_text>\<open>case\<close> below is the catch block. The logging
  calls are left out. A handler returns its result and the trace extended by its calls.
\<close>

definition contains_token :: "string \<Rightarrow> string \<Rightarrow> json" where
  "contains_token name v =
     JObj [(''propertyName'', JStr name), (''operator'', JStr ''CONTAINS_TOKEN''),
           (''value'', JStr v)]"

definition hubspot_contacts_search ::
  "(string \<Rightarrow> string + json) \<Rightarrow> net \<Rightarrow> string option \<Rightarrow> string list option \<Rightarrow> int option
     \<Rightarrow> trace \<Rightarrow> tool_result \<times> trace" where
  "hubspot_contacts_search JSON_parse net query properties limit tr =
     (case hsPOST JSON_parse net ''/crm/v3/objects/contacts/search''
             (JObj [(''filterGroups'',
                       if given query
                       then JArr [JObj [(''filters'',
                              JArr [contains_token ''email'' (default query []),
                                    contains_token ''firstname'' (default query [])])]]
                       else JArr []),
                    (''properties'',
                       JArr (map JStr (default properties
                         [''email'', ''firstname'', ''lastname'', ''lifecyclestage'',
                          ''createdate'', ''hubspot_owner_id'']))),
                    (''limit'', JNum (default limit 20))]) tr of
        (Inl e, tr') \<Rightarrow> (asText (error_envelope e) (Some ''contacts_error''), tr')
      | (Inr data, tr') \<Rightarrow> (asText (search_envelope data) (Some ''contacts''), tr'))"

definition hubspot_companies_search ::
  "(string \<Rightarrow> string + json) \<Rightarrow> net \<Rightarrow> string option \<Rightarrow> string list option \<Rightarrow> int option
     \<Rightarrow> trace \<Rightarrow> tool_result \<times> trace" where
  "hubspot_companies_search JSON_parse net query properties limit tr =
     (case hsPOST JSON_parse net ''/crm/v3/objects/companies/search''
             (JObj [(''filterGroups'',
                       if given query
                       then JArr [JObj [(''filters'',
                              JArr [contains_token ''name'' (default query []),
                                    contains_token ''domain'' (default query [])])]]
                       else JArr []),
                    (''properties'',
                       JArr (map JStr (default properties
                         [''name'', ''domain'', ''industry'', ''city'', ''country'']))),
                    (''limit'', JNum (default limit 20))]) tr of
        (Inl e, tr') \<Rightarrow> (asText (error_envelope e) (Some ''companies_error''), tr')
      | (Inr data, tr') \<Rightarrow> (asText (search_envelope data) (Some ''companies''), tr'))"

text \<open>
  \<^verbatim>\<open>
  const filters = [];
  if (stage) filters.push({ propertyName: "dealstage", operator: "EQ", value: stage });
  if (pipeline) filters.push({ propertyName: "pipeline", operator: "EQ", value: pipeline });
  const body = { filterGroups: filters.length ? [{ filters }] : [], properties, limit };
  const data = await hsPOST("/crm/v3/objects/deals/search", body);
  \<close>
\<close>

definition eq_filter :: "string \<Rightarrow> string \<Rightarrow> json" where
  "eq_filter name v =
     JObj [(''propertyName'', JStr name), (''operator'', JStr ''EQ''), (''value'', JStr v)]"

definition deals_default_properties :: "string list" where
  "deals_default_properties =
     [''dealname'', ''amount'', ''dealstage'', ''pipeline'', ''createdate'',
      ''hs_close_date'', ''hubspot_owner_id'']"

definition deals_filters :: "string option \<Rightarrow> string option \<Rightarrow> json list" where
  "deals_filters stage pipeline =
     (if given stage then [eq_filter ''dealstage'' (default stage [])] else [])
     @ (if given pipeline then [eq_filter ''pipeline'' (default pipeline [])] else [])"

definition hubspot_deals_search ::
  "(string \<Rightarrow> string + json) \<Rightarrow> net \<Rightarrow> string option \<Rightarrow> string option
     \<Rightarrow> string list option \<Rightarrow> int option \<Rightarrow> trace \<Rightarrow> tool_result \<times> trace" where
  "hubspot_deals_search JSON_parse net stage pipeline properties limit tr =
     (let filters = deals_filters stage pipeline in
      case hsPOST JSON_parse net ''/crm/v3/objects/deals/search''
             (JObj [(''filterGroups'',
                       if length filters \<noteq> 0 then JArr [JObj [(''filters'', JArr filters)]]
                       else JArr []),
                    (''properties'', JArr (map JStr (default properties deals_default_properties))),
                    (''limit'', JNum (default limit 20))]) tr of
        (Inl e, tr') \<Rightarrow> (asText (error_envelope e) (Some ''deals_error''), tr')
      | (Inr data, tr') \<Rightarrow> (asText (search_envelope data) (Some ''deals''), tr'))"

definition qstring :: "string option \<Rightarrow> qvalue" where
  "qstring v = (case v of None \<Rightarrow> QUndefined | Some s \<Rightarrow> QStr s)"

definition hubspot_owners_list ::
  "(string \<Rightarrow> string + json) \<Rightarrow> net \<Rightarrow> string option \<Rightarrow> int option
     \<Rightarrow> trace \<Rightarrow> tool_result \<times> trace" where
  "hubspot_owners_list JSON_parse net after limit tr =
     (case hsGET JSON_parse net ''/crm/v3/owners/''
             [(''after'', qstring after), (''limit'', QNum (default limit 100))] tr of
        (Inl e, tr') \<Rightarrow> (asText (error_envelope e) (Some ''owners_error''), tr')
      | (Inr data, tr') \<Rightarrow>
          (asText (JObj (spread [(''ok'', JBool True)] data)) (Some ''owners''), tr'))"

definition hubspot_properties ::
  "(string \<Rightarrow> string + json) \<Rightarrow> net \<Rightarrow> string option \<Rightarrow> trace \<Rightarrow> tool_result \<times> trace" where
  "hubspot_properties JSON_parse net object tr =
     (case hsGET JSON_parse net (''/crm/v3/properties/'' @ default object ''deals'') [] tr of
        (Inl e, tr') \<Rightarrow> (asText (error_envelope e) (Some ''properties_error''), tr')
      | (Inr data, tr') \<Rightarrow>
          (asText (JObj (spread [(''ok'', JBool True)] data)) (Some ''properties''), tr'))"

definition hubspot_pipelines ::
  "(string \<Rightarrow> string + json) \<Rightarrow> net \<Rightarrow> string option \<Rightarrow> trace \<Rightarrow> tool_result \<times> trace" where
  "hubspot_pipelines JSON_parse net object tr =
     (case hsGET JSON_parse net (''/crm/v3/pipelines/'' @ default object ''deals'') [] tr of
        (Inl e, tr') \<Rightarrow> (asText (error_envelope e) (Some ''pipelines_error''), tr')
      | (Inr data, tr') \<Rightarrow>
          (asText (JObj (spread [(''ok'', JBool True)] data)) (Some ''pipelines''), tr'))"

definition hubspot_paginate ::
  "(string \<Rightarrow> string + json) \<Rightarrow> net \<Rightarrow> string \<Rightarrow> string option \<Rightarrow> string list option
     \<Rightarrow> int option \<Rightarrow> trace \<Rightarrow> tool_result \<times> trace" where
  "hubspot_paginate JSON_parse net object after properties limit tr =
     (case hsGET JSON_parse net (''/crm/v3/objects/'' @ object)
             [(''properties'', QStr (join_comma (default properties []))),
              (''limit'', QNum (default limit 100)),
              (''after'', qstring after)] tr of
        (Inl e, tr') \<Rightarrow> (asText (error_envelope e) (Some ''paginate_error''), tr')
      | (Inr data, tr') \<Rightarrow>
          (asText (JObj (spread [(''ok'', JBool True)] data)) (Some ''paginate''), tr'))"

text \<open>
  The batch read calls \<^verbatim>\<open>fetch\<close> itself, once for each part of
  \<^verbatim>\<open>chunk(ids)\<close>, in order; a \<^verbatim>\<open>throw\<close> leaves the loop.
  \<^verbatim>\<open>
  const all = [];
  for (const part of chunk(ids)) {
    const res = await fetch(`https://api.hubapi.com/crm/v3/objects/${object}/batch/read`,
      { method: "POST", ..., body: JSON.stringify({ properties,
                                                    inputs: part.map((id) => ({ id })) }) });
    const text = await res.text();
    if (!res.ok) throw new Error(`HubSpot batch ${object} ${res.status} ${text}`);
    const json = JSON.parse(text);
    if (json?.results) all.push(...json.results);
  }
  return asText({ ok: true, results: all }, "batch_read");
  \<close>
\<close>

definition id_inputs :: "string list \<Rightarrow> json" where
  "id_inputs part = JArr (map (\<lambda>id. JObj [(''id'', JStr id)]) part)"

definition batch_read_request :: "string \<Rightarrow> string list \<Rightarrow> string list \<Rightarrow> request" where
  "batch_read_request object properties part =
     \<lparr>req_method = POST, req_path = ''/crm/v3/objects/'' @ object @ ''/batch/read'',
      req_query = [],
      req_body = Some (JObj [(''properties'', JArr (map JStr properties)),
                             (''inputs'', id_inputs part)])\<rparr>"

fun batch_read_loop ::
  "(string \<Rightarrow> string + json) \<Rightarrow> net \<Rightarrow> string \<Rightarrow> string list \<Rightarrow> string list list
     \<Rightarrow> json list \<Rightarrow> trace \<Rightarrow> (exn + json list) \<times> trace" where
  "batch_read_loop JSON_parse net object properties [] all tr = (Inr all, tr)"
| "batch_read_loop JSON_parse net object properties (part # parts) all tr =
     (case fetch net (batch_read_request object properties part) tr of
        (Inl e, tr') \<Rightarrow> (Inl e, tr')
      | (Inr res, tr') \<Rightarrow>
          if \<not> ok res
          then (Inl (Error (''HubSpot batch '' @ object @ '' '' @ digits (status res) @ '' ''
                            @ body_text res)), tr')
          else (case JSON_parse (body_text res) of
                  Inl m \<Rightarrow> (Inl (SyntaxError m), tr')
                | Inr json \<Rightarrow>
                    (case opt_chain (Some json) ''results'' of
                       None \<Rightarrow> batch_read_loop JSON_parse net object properties parts all tr'
                     | Some r \<Rightarrow>
                         if truthy r
                         then (case iterate r of
                                 Inl e \<Rightarrow> (Inl e, tr')
                               | Inr xs \<Rightarrow>
                                   batch_read_loop JSON_parse net object properties parts
                                     (all @ xs) tr')
                         else batch_read_loop JSON_parse net object properties parts all tr')))"

definition hubspot_batch_read ::
  "(string \<Rightarrow> string + json) \<Rightarrow> net \<Rightarrow> string \<Rightarrow> string list \<Rightarrow> string list option
     \<Rightarrow> trace \<Rightarrow> (tool_result \<times> trace) option" where
  "hubspot_batch_read JSON_parse net object ids properties tr =
     (case chunk ids 90 of
        None \<Rightarrow> None
      | Some parts \<Rightarrow>
          Some (case batch_read_loop JSON_parse net object (default properties []) parts [] tr of
                  (Inl e, tr') \<Rightarrow> (asText (error_envelope e) (Some ''batch_read_error''), tr')
                | (Inr all, tr') \<Rightarrow>
                    (asText (JObj [(''ok'', JBool True), (''results'', JArr all)])
                       (Some ''batch_read''), tr')))"

text \<open>
  The association read sends all identifiers in one call:
  \<^verbatim>\<open>
  const res = await fetch(
    `https://api.hubapi.com/crm/v3/associations/${from_object}/${to_object}/batch/read`,
    { method: "POST", ..., body: JSON.stringify({ inputs: ids.map((id) => ({ id })) }) });
  const text = await res.text();
  if (!res.ok) throw new Error(
    `HubSpot associations ${from_object}->${to_object} ${res.status} ${text}`);
  const data = JSON.parse(text);
  return asText({ ok: true, ...data }, "associations");
  \<close>
\<close>

definition associations_request :: "string \<Rightarrow> string \<Rightarrow> string list \<Rightarrow> request" where
  "associations_request from_object to_object ids =
     \<lparr>req_method = POST,
      req_path = ''/crm/v3/associations/'' @ from_object @ ''/'' @ to_object @ ''/batch/read'',
      req_query = [],
      req_body = Some (JObj [(''inputs'', id_inputs ids)])\<rparr>"

definition hubspot_associations_batch ::
  "(string \<Rightarrow> string + json) \<Rightarrow> net \<Rightarrow> string \<Rightarrow> string \<Rightarrow> string list
     \<Rightarrow> trace \<Rightarrow> tool_result \<times> trace" where
  "hubspot_associations_batch JSON_parse net from_object to_object ids tr =
     (case fetch net (associations_request from_object to_object ids) tr of
        (Inl e, tr') \<Rightarrow> (asText (error_envelope e) (Some ''associations_error''), tr')
      | (Inr res, tr') \<Rightarrow>
          if \<not> ok res
          then (asText (error_envelope
                  (Error (''HubSpot associations '' @ from_object @ ''->'' @ to_object @ '' ''
                          @ digits (status res) @ '' '' @ body_text res)))
                  (Some ''associations_error''), tr')
          else (case JSON_parse (body_text res) of
                  Inl m \<Rightarrow>
                    (asText (error_envelope (SyntaxError m)) (Some ''associations_error''), tr')
                | Inr data \<Rightarrow>
                    (asText (JObj (spread [(''ok'', JBool True)] data))
                       (Some ''associations''), tr')))"

definition hubspot_recently_modified ::
  "(string \<Rightarrow> string + json) \<Rightarrow> net \<Rightarrow> string \<Rightarrow> int \<Rightarrow> string list option \<Rightarrow> int option
     \<Rightarrow> trace \<Rightarrow> tool_result \<times> trace" where
  "hubspot_recently_modified JSON_parse net object since_ms properties limit tr =
     (case hsPOST JSON_parse net (''/crm/v3/objects/'' @ object @ ''/search'')
             (JObj [(''filterGroups'',
                       JArr [JObj [(''filters'',
                         JArr [JObj [(''propertyName'', JStr ''hs_lastmodifieddate''),
                                     (''operator'', JStr ''GTE''),
                                     (''value'', JStr (String_int since_ms))]])]]),
                    (''properties'', JArr (map JStr (default properties []))),
                    (''limit'', JNum (default limit 50)),
                    (''sorts'',
                       JArr [JObj [(''propertyName'', JStr ''hs_lastmodifieddate''),
                                   (''direction'', JStr ''DESCENDING'')]])]) tr of
        (Inl e, tr') \<Rightarrow> (asText (error_envelope e) (Some ''recently_modified_error''), tr')
      | (Inr data, tr') \<Rightarrow> (asText (search_envelope data) (Some ''recently_modified''), tr'))"

text \<open>
  \<^verbatim>\<open>filterGroups\<close> and \<^verbatim>\<open>sorts\<close> are \<^verbatim>\<open>z.any()\<close>: any JSON value,
  or absent. The body is
  \<^verbatim>\<open>{ filterGroups, properties, limit, ...(sorts ? { sorts } : {}) }\<close>.
\<close>

definition hubspot_search_advanced ::
  "(string \<Rightarrow> string + json) \<Rightarrow> net \<Rightarrow> string \<Rightarrow> json option \<Rightarrow> string list option
     \<Rightarrow> int option \<Rightarrow> json option \<Rightarrow> trace \<Rightarrow> tool_result \<times> trace" where
  "hubspot_search_advanced JSON_parse net object filterGroups properties limit sorts tr =
     (case hsPOST JSON_parse net (''/crm/v3/objects/'' @ object @ ''/search'')
             (JObj (defined_fields
                      [(''filterGroups'', filterGroups),
                       (''properties'', Some (JArr (map JStr (default properties [])))),
                       (''limit'', Some (JNum (default limit 50))),
                       (''sorts'', case sorts of
                                     None \<Rightarrow> None
                                   | Some s \<Rightarrow> if truthy s then Some s else None)])) tr of
        (Inl e, tr') \<Rightarrow> (asText (error_envelope e) (Some ''advanced_search_error''), tr')
      | (Inr data, tr') \<Rightarrow> (asText (search_envelope data) (Some ''advanced_search''), tr'))"

text \<open>
  One tool invocation: the tool's name with its validated arguments. \<open>None\<close> is a
  handler that does not return.
\<close>

datatype tool_call =
    Contacts_search "string option" "string list option" "int option"
  | Companies_search "string option" "string list option" "int option"
  | Deals_search "string option" "string option" "string list option" "int option"
  | Owners_list "string option" "int option"
  | Properties "string option"
  | Pipelines "string option"
  | Paginate string "string option" "string list option" "int option"
  | Batch_read string "string list" "string list option"
  | Associations_batch string string "string list"
  | Recently_modified string int "string list option" "int option"
  | Search_advanced string "json option" "string list option" "int option" "json option"

fun invoke ::
  "(string \<Rightarrow> string + json) \<Rightarrow> net \<Rightarrow> tool_call \<Rightarrow> trace \<Rightarrow> (tool_result \<times> trace) option" where
  "invoke P net (Contacts_search q ps l) tr = Some (hubspot_contacts_search P net q ps l tr)"
| "invoke P net (Companies_search q ps l) tr = Some (hubspot_companies_search P net q ps l tr)"
| "invoke P net (Deals_search s p ps l) tr = Some (hubspot_deals_search P net s p ps l tr)"
| "invoke P net (Owners_list a l) tr = Some (hubspot_owners_list P net a l tr)"
| "invoke P net (Properties ob) tr = Some (hubspot_properties P net ob tr)"
| "invoke P net (Pipelines ob) tr = Some (hubspot_pipelines P net ob tr)"
| "invoke P net (Paginate ob a ps l) tr = Some (hubspot_paginate P net ob a ps l tr)"
| "invoke P net (Batch_read ob ids ps) tr = hubspot_batch_read P net ob ids ps tr"
| "invoke P net (Associations_batch f t ids) tr =
     Some (hubspot_associations_batch P net f t ids tr)"
| "invoke P net (Recently_modified ob ms ps l) tr =
     Some (hubspot_recently_modified P net ob ms ps l tr)"
| "invoke P net (Search_advanced ob fg ps l so) tr =
     Some (hubspot_search_advanced P net ob fg ps l so tr)"

section \<open>The older file's deals tool\<close>

text \<open>
  \<^verbatim>\<open>src/server.js\<close> (server version 1.0.0) registers
  \<^verbatim>\<open>hubspot.deals.search\<close> with its own helper and no \<^verbatim>\<open>try\<close>:
  \<^verbatim>\<open>
  async function hsPOST(path, body) {
    const res = await fetch(..., { method: "POST", ..., body: JSON.stringify(body || {}) });
    if (!res.ok) throw new Error(`HubSpot ${res.status} ${await res.text()}`);
    return res.json();
  }
  async ({ stage, limit = 20 }) => {
    const filters = stage ? [{ propertyName: "dealstage", operator: "EQ", value: stage }] : [];
    const data = await hsPOST("/crm/v3/objects/deals/search", {
      filterGroups: filters.length ? [{ filters }] : [], limit,
      properties: ["dealname","amount","dealstage","pipeline","hs_close_date"] });
    return { content: [{ type: "json", json: data }] };
  }
  \<close>
  Here a failure leaves the handler as an exception: the result is \<open>Inl\<close>.
\<close>

definition hsPOST_v1 ::
  "(string \<Rightarrow> string + json) \<Rightarrow> net \<Rightarrow> string \<Rightarrow> json \<Rightarrow> trace \<Rightarrow> (exn + json) \<times> trace" where
  "hsPOST_v1 JSON_parse net path b tr =
     (case fetch net
             \<lparr>req_method = POST, req_path = path, req_query = [],
              req_body = Some (if truthy b then b else JObj [])\<rparr> tr of
        (Inl e, tr') \<Rightarrow> (Inl e, tr')
      | (Inr res, tr') \<Rightarrow>
          if \<not> ok res
          then (Inl (Error (''HubSpot '' @ digits (status res) @ '' '' @ body_text res)), tr')
          else (case JSON_parse (body_text res) of
                  Inl m \<Rightarrow> (Inl (SyntaxError m), tr')
                | Inr j \<Rightarrow> (Inr j, tr')))"

definition hubspot_deals_search_v1 ::
  "(string \<Rightarrow> string + json) \<Rightarrow> net \<Rightarrow> string option \<Rightarrow> int option
     \<Rightarrow> trace \<Rightarrow> (exn + tool_result) \<times> trace" where
  "hubspot_deals_search_v1 JSON_parse net stage limit tr =
     (let filters = (if given stage then [eq_filter ''dealstage'' (default stage [])] else []) in
      case hsPOST_v1 JSON_parse net ''/crm/v3/objects/deals/search''
             (JObj [(''filterGroups'',
                       if length filters \<noteq> 0 then JArr [JObj [(''filters'', JArr filters)]]
                       else JArr []),
                    (''limit'', JNum (default limit 20)),
                    (''properties'',
                       JArr (map JStr [''dealname'', ''amount'', ''dealstage'', ''pipeline'',
                                       ''hs_close_date'']))]) tr of
        (Inl e, tr') \<Rightarrow> (Inl e, tr')
      | (Inr data, tr') \<Rightarrow> (Inr (Content_json data), tr'))"

section \<open>Notions the claims are stated with\<close>

text \<open>
  The partition the specification describes for a batch: the list cut into contiguous
  runs of \<open>sz\<close> elements, \<open>\<lceil>N / sz\<rceil>\<close> of them, the last one holding the
  remainder.
\<close>

definition contiguous_groups :: "nat \<Rightarrow> 'a list \<Rightarrow> 'a list list" where
  "contiguous_groups sz xs =
     map (\<lambda>k. take sz (drop (k * sz) xs)) [0..<(length xs + sz - 1) div sz]"

text \<open>
  What a reply is read as after \<^verbatim>\<open>fetch\<close> in \<^verbatim>\<open>hsPOST\<close> and
  \<^verbatim>\<open>hsGET\<close> (the two helpers share these lines): the exception of a rejected
  call, the error made from a status outside 200..299, else the parsed body, or the
  body text itself when it does not parse.
\<close>

definition parsed_reply :: "(string \<Rightarrow> string + json) \<Rightarrow> reply \<Rightarrow> exn + json" where
  "parsed_reply JSON_parse rep =
     (case rep of
        Inl e \<Rightarrow> Inl e
      | Inr res \<Rightarrow>
          if \<not> ok res
          then Inl (Error (''HubSpot '' @ digits (status res) @ '' '' @ body_text res))
          else (case JSON_parse (body_text res) of
                  Inl m \<Rightarrow> Inr (JStr (body_text res))
                | Inr j \<Rightarrow> Inr j))"

text \<open>
  The records that one reply to a batch read contributes: the elements of the
  \<^verbatim>\<open>results\<close> of its parsed body, none when there is no such list.
\<close>

definition reply_results :: "(string \<Rightarrow> string + json) \<Rightarrow> reply \<Rightarrow> json list" where
  "reply_results JSON_parse rep =
     (case rep of
        Inl e \<Rightarrow> []
      | Inr res \<Rightarrow>
          (case JSON_parse (body_text res) of
             Inl m \<Rightarrow> []
           | Inr json \<Rightarrow>
               (case opt_chain (Some json) ''results'' of
                  None \<Rightarrow> []
                | Some r \<Rightarrow> (case iterate r of Inl e \<Rightarrow> [] | Inr xs \<Rightarrow> xs))))"


text \<open>The labels under which each tool reports success and failure.\<close>

fun success_label :: "tool_call \<Rightarrow> string" where
  "success_label (Contacts_search q ps l) = ''contacts''"
| "success_label (Companies_search q ps l) = ''companies''"
| "success_label (Deals_search s p ps l) = ''deals''"
| "success_label (Owners_list a l) = ''owners''"
| "success_label (Properties ob) = ''properties''"
| "success_label (Pipelines ob) = ''pipelines''"
| "success_label (Paginate ob a ps l) = ''paginate''"
| "success_label (Batch_read ob ids ps) = ''batch_read''"
| "success_label (Associations_batch f t ids) = ''associations''"
| "success_label (Recently_modified ob ms ps l) = ''recently_modified''"
| "success_label (Search_advanced ob fg ps l so) = ''advanced_search''"

definition error_label :: "tool_call \<Rightarrow> string" where
  "error_label tc = success_label tc @ ''_error''"

text \<open>The two tools that call \<^verbatim>\<open>JSON.parse\<close> themselves, inside their \<^verbatim>\<open>try\<close>.\<close>

fun parses_itself :: "tool_call \<Rightarrow> bool" where
  "parses_itself (Batch_read ob ids ps) = True"
| "parses_itself (Associations_batch f t ids) = True"
| "parses_itself tc = False"

text \<open>The five search tools, whose success envelope carries a count.\<close>

fun search_style :: "tool_call \<Rightarrow> bool" where
  "search_style (Contacts_search q ps l) = True"
| "search_style (Companies_search q ps l) = True"
| "search_style (Deals_search s p ps l) = True"
| "search_style (Recently_modified ob ms ps l) = True"
| "search_style (Search_advanced ob fg ps l so) = True"
| "search_style tc = False"

text \<open>
  What the nine handlers built on \<^verbatim>\<open>hsPOST\<close> and \<^verbatim>\<open>hsGET\<close> make of the
  helper's outcome: the catch block's envelope for an exception, else the search
  envelope (the five search tools) or \<^verbatim>\<open>{ ok: true, ...data }\<close> (the other four).
\<close>

definition hs_result :: "tool_call \<Rightarrow> exn + json \<Rightarrow> tool_result" where
  "hs_result tc out =
     (case out of
        Inl e \<Rightarrow> asText (error_envelope e) (Some (error_label tc))
      | Inr data \<Rightarrow>
          asText (if search_style tc then search_envelope data
                  else JObj (spread [(''ok'', JBool True)] data))
            (Some (success_label tc)))"

section \<open>Session routing: the claims\<close>

text \<open>
  C1. A message posted with an identifier that is registered (the transport was stored
  under it by a stream-open and has not been closed) is handed to that session's
  transport, and the outcome is this one hand-over: no other transport is involved.
  Opening a stream registers the transport so that its own identifier reaches it, and
  leaves what every other registered identifier reaches unchanged.
\<close>

theorem post_registered_session_delivered:
  "(transports sid = Some t \<longrightarrow>
      app_post_messages transports sid body = HandlePostMessage t body)
   \<and> (sessionId t \<notin> set object_prototype_keys \<longrightarrow>
      app_post_messages (app_get_sse transports t) (sessionId t) body
        = HandlePostMessage t body)
   \<and> (sid \<noteq> sessionId t \<longrightarrow>
      app_post_messages (app_get_sse transports t) sid body
        = app_post_messages transports sid body)"
  by (simp add: app_post_messages_def get_transport_def app_get_sse_def)

theorem post_registered_session_delivered_witness:
  "app_post_messages
      [''3f1c2a9e-0b7d-4c55-9e21-7a6b5d4c3e2f'' \<mapsto>
         \<lparr>sessionId = ''3f1c2a9e-0b7d-4c55-9e21-7a6b5d4c3e2f'', stream = (1::nat)\<rparr>]
      ''3f1c2a9e-0b7d-4c55-9e21-7a6b5d4c3e2f'' (JObj [(''jsonrpc'', JStr ''2.0'')])
    = HandlePostMessage
        \<lparr>sessionId = ''3f1c2a9e-0b7d-4c55-9e21-7a6b5d4c3e2f'', stream = 1\<rparr>
        (JObj [(''jsonrpc'', JStr ''2.0'')])
   \<and> ''3f1c2a9e-0b7d-4c55-9e21-7a6b5d4c3e2f'' \<notin> set object_prototype_keys
   \<and> app_post_messages
        (app_get_sse Map.empty
           \<lparr>sessionId = ''3f1c2a9e-0b7d-4c55-9e21-7a6b5d4c3e2f'', stream = (1::nat)\<rparr>)
        ''3f1c2a9e-0b7d-4c55-9e21-7a6b5d4c3e2f'' JNull
      = HandlePostMessage
          \<lparr>sessionId = ''3f1c2a9e-0b7d-4c55-9e21-7a6b5d4c3e2f'', stream = 1\<rparr> JNull
   \<and> ''a'' \<noteq> ''3f1c2a9e-0b7d-4c55-9e21-7a6b5d4c3e2f''
   \<and> app_post_messages
        (app_get_sse Map.empty
           \<lparr>sessionId = ''3f1c2a9e-0b7d-4c55-9e21-7a6b5d4c3e2f'', stream = (1::nat)\<rparr>)
        ''a'' JNull
      = app_post_messages Map.empty ''a'' JNull"
  using post_registered_session_delivered
    [of "[''3f1c2a9e-0b7d-4c55-9e21-7a6b5d4c3e2f'' \<mapsto>
            \<lparr>sessionId = ''3f1c2a9e-0b7d-4c55-9e21-7a6b5d4c3e2f'', stream = (1::nat)\<rparr>]"
        "''3f1c2a9e-0b7d-4c55-9e21-7a6b5d4c3e2f''"
        "\<lparr>sessionId = ''3f1c2a9e-0b7d-4c55-9e21-7a6b5d4c3e2f'', stream = (1::nat)\<rparr>"
        "JObj [(''jsonrpc'', JStr ''2.0'')]"]
    post_registered_session_delivered
    [of Map.empty "''a''"
        "\<lparr>sessionId = ''3f1c2a9e-0b7d-4c55-9e21-7a6b5d4c3e2f'', stream = (1::nat)\<rparr>"
        JNull]
  by (simp add: object_prototype_keys_def)

text \<open>
  C2. The claim: a POST with an identifier that is not in the registry answers exactly
  400 and reaches no handler. The code reads the identifier as a property of an object
  that inherits from \<^verbatim>\<open>Object.prototype\<close>: with the empty registry, the
  identifier \<open>''constructor''\<close> finds the inherited member, the guard
  \<^verbatim>\<open>if (!transport)\<close> does not fire, and the call of
  \<^verbatim>\<open>transport.handlePostMessage\<close> throws. No 400 is sent.
\<close>

theorem post_unregistered_constructor_throws:
  "(Map.empty :: nat registry) ''constructor'' = None
   \<and> app_post_messages (Map.empty :: nat registry) ''constructor'' (JObj [])
       = Throw (TypeError ''transport.handlePostMessage is not a function'')
   \<and> app_post_messages (Map.empty :: nat registry) ''constructor'' (JObj [])
       \<noteq> Send_status 400 ''No transport found for sessionId''"
  by (simp add: app_post_messages_def get_transport_def object_prototype_keys_def)

text \<open>
  What the guard does achieve: an identifier that is neither registered nor the name of
  an inherited member is answered with 400, and no transport is handed anything.
\<close>

lemma post_unregistered_plain_key:
  "transports sid = None \<Longrightarrow> sid \<notin> set object_prototype_keys \<Longrightarrow>
   app_post_messages transports sid body = Send_status 400 ''No transport found for sessionId''"
  by (simp add: app_post_messages_def get_transport_def)

lemma post_never_reaches_unregistered_transport:
  "app_post_messages transports sid body = HandlePostMessage t b \<Longrightarrow>
   transports sid = Some t \<and> b = body"
  by (auto simp: app_post_messages_def get_transport_def split: option.splits if_splits)

text \<open>
  C3. Closing a session deletes its entry: a later POST with its identifier (an
  identifier the SDK generated, so not the name of an inherited member) is answered with
  400. Closing is idempotent: closing again changes nothing, and closing a transport
  whose identifier is not registered leaves the registry as it is. \<open>on_close\<close> has no
  error outcome: \<^verbatim>\<open>delete\<close> raises none.
\<close>

theorem close_removes_and_is_idempotent:
  "(sessionId t \<notin> set object_prototype_keys \<longrightarrow>
      app_post_messages (on_close transports t) (sessionId t) body
        = Send_status 400 ''No transport found for sessionId'')
   \<and> on_close transports t (sessionId t) = None
   \<and> on_close (on_close transports t) t = on_close transports t
   \<and> (transports (sessionId t) = None \<longrightarrow> on_close transports t = transports)
   \<and> (sid \<noteq> sessionId t \<longrightarrow> on_close transports t sid = transports sid)"
  by (auto simp: app_post_messages_def get_transport_def on_close_def)

theorem close_removes_and_is_idempotent_witness:
  "''9d2e4b6a-1c3f-4a5b-8e7d-0f1a2b3c4d5e'' \<notin> set object_prototype_keys
   \<and> app_post_messages
        (on_close
           [''9d2e4b6a-1c3f-4a5b-8e7d-0f1a2b3c4d5e'' \<mapsto>
              \<lparr>sessionId = ''9d2e4b6a-1c3f-4a5b-8e7d-0f1a2b3c4d5e'', stream = (7::nat)\<rparr>]
           \<lparr>sessionId = ''9d2e4b6a-1c3f-4a5b-8e7d-0f1a2b3c4d5e'', stream = 7\<rparr>)
        ''9d2e4b6a-1c3f-4a5b-8e7d-0f1a2b3c4d5e'' JNull
      = Send_status 400 ''No transport found for sessionId''
   \<and> (Map.empty :: nat registry) ''9d2e4b6a-1c3f-4a5b-8e7d-0f1a2b3c4d5e'' = None
   \<and> on_close (Map.empty :: nat registry)
        \<lparr>sessionId = ''9d2e4b6a-1c3f-4a5b-8e7d-0f1a2b3c4d5e'', stream = 7\<rparr>
      = Map.empty
   \<and> ''b'' \<noteq> ''9d2e4b6a-1c3f-4a5b-8e7d-0f1a2b3c4d5e''
   \<and> on_close
        [''b'' \<mapsto> \<lparr>sessionId = ''b'', stream = (8::nat)\<rparr>]
        \<lparr>sessionId = ''9d2e4b6a-1c3f-4a5b-8e7d-0f1a2b3c4d5e'', stream = 7\<rparr> ''b''
      = Some \<lparr>sessionId = ''b'', stream = 8\<rparr>"
  using close_removes_and_is_idempotent
    [of "\<lparr>sessionId = ''9d2e4b6a-1c3f-4a5b-8e7d-0f1a2b3c4d5e'', stream = (7::nat)\<rparr>"
        "[''9d2e4b6a-1c3f-4a5b-8e7d-0f1a2b3c4d5e'' \<mapsto>
            \<lparr>sessionId = ''9d2e4b6a-1c3f-4a5b-8e7d-0f1a2b3c4d5e'', stream = (7::nat)\<rparr>]"
        JNull "''b''"]
    close_removes_and_is_idempotent
    [of "\<lparr>sessionId = ''9d2e4b6a-1c3f-4a5b-8e7d-0f1a2b3c4d5e'', stream = (7::nat)\<rparr>"
        "Map.empty :: nat registry" JNull "''b''"]
    close_removes_and_is_idempotent
    [of "\<lparr>sessionId = ''9d2e4b6a-1c3f-4a5b-8e7d-0f1a2b3c4d5e'', stream = (7::nat)\<rparr>"
        "[''b'' \<mapsto> \<lparr>sessionId = ''b'', stream = (8::nat)\<rparr>]" JNull "''b''"]
  by (simp add: object_prototype_keys_def)

section \<open>One remote call\<close>

lemma fetch_eq: "fetch net req tr = (net tr req, tr @ [(req, net tr req)])"
  by (simp add: fetch_def Let_def)

text \<open>Each helper makes exactly one call and reads the reply as \<open>parsed_reply\<close> says.\<close>

lemma hsPOST_eq:
  "hsPOST P net path b tr =
     (parsed_reply P
        (net tr \<lparr>req_method = POST, req_path = path, req_query = [],
                 req_body = Some (if truthy b then b else JObj [])\<rparr>),
      tr @ [(\<lparr>req_method = POST, req_path = path, req_query = [],
              req_body = Some (if truthy b then b else JObj [])\<rparr>,
             net tr \<lparr>req_method = POST, req_path = path, req_query = [],
                     req_body = Some (if truthy b then b else JObj [])\<rparr>)])"
  by (simp add: hsPOST_def parsed_reply_def fetch_eq split: sum.splits)

lemma hsGET_eq:
  "hsGET P net path query tr =
     (parsed_reply P
        (net tr \<lparr>req_method = GET, req_path = path, req_query = searchParams query,
                 req_body = None\<rparr>),
      tr @ [(\<lparr>req_method = GET, req_path = path, req_query = searchParams query,
              req_body = None\<rparr>,
             net tr \<lparr>req_method = GET, req_path = path, req_query = searchParams query,
                     req_body = None\<rparr>)])"
  by (simp add: hsGET_def parsed_reply_def fetch_eq split: sum.splits)

lemma digits_100: "digits 100 = ''100''"
  by (simp add: digits.simps)

lemma digits_200: "digits 200 = ''200''"
  by (simp add: digits.simps)

lemma digits_500: "digits 500 = ''500''"
  by (simp add: digits.simps)

section \<open>What \<^verbatim>\<open>chunk\<close> returns\<close>

lemma ceil_step:
  fixes d sz :: nat
  assumes "0 < sz" "0 < d"
  shows "(d + sz - 1) div sz = Suc ((d - sz + sz - 1) div sz)"
proof -
  have e1: "d + sz - 1 = (d - 1) + sz" using assms by simp
  have "((d - 1) + sz) div sz = Suc ((d - 1) div sz)"
    using div_add_self2[of sz "d - 1"] assms(1) by simp
  then have s1: "(d + sz - 1) div sz = Suc ((d - 1) div sz)"
    by (simp only: e1)
  show ?thesis
  proof (cases "sz \<le> d")
    case True
    then have "d - sz + sz - 1 = d - 1" by simp
    then show ?thesis by (simp only: s1)
  next
    case False
    then have a: "d - sz + sz - 1 = sz - 1" by simp
    have b: "(sz - 1) div sz = 0" using assms(1) by simp
    have c: "(d - 1) div sz = 0" using False assms by simp
    show ?thesis by (simp only: s1 a b c)
  qed
qed

text \<open>The loop returns whenever the size is positive, with the slices in order.\<close>

lemma chunk_from_closed:
  assumes "0 < sz"
  shows "chunk_from arr sz i out =
     Some (out @ map (\<lambda>k. slice arr (i + k * sz) (i + k * sz + sz))
                     [0..<(length arr - i + sz - 1) div sz])"
proof (induction "length arr - i" arbitrary: i out rule: less_induct)
  case less
  show ?case
  proof (cases "i < length arr")
    case False
    then have "length arr - i = 0" by simp
    then have "(length arr - i + sz - 1) div sz = 0" using assms by simp
    then show ?thesis using False by (subst chunk_from.simps) simp
  next
    case True
    have dec: "length arr - (i + sz) < length arr - i" using True assms by simp
    have m: "(length arr - i + sz - 1) div sz
             = Suc ((length arr - (i + sz) + sz - 1) div sz)"
      using ceil_step[OF assms, of "length arr - i"] True by (simp add: algebra_simps)
    have "chunk_from arr sz i out
          = chunk_from arr sz (i + sz) (out @ [slice arr i (i + sz)])"
      using True by (subst chunk_from.simps) simp
    also have "\<dots> = Some ((out @ [slice arr i (i + sz)])
                   @ map (\<lambda>k. slice arr (i + sz + k * sz) (i + sz + k * sz + sz))
                       [0..<(length arr - (i + sz) + sz - 1) div sz])"
      by (rule less[OF dec])
    also have "\<dots> = Some (out @ map (\<lambda>k. slice arr (i + k * sz) (i + k * sz + sz))
                     [0..<(length arr - i + sz - 1) div sz])"
      unfolding m map_upt_Suc by (simp add: algebra_simps)
    finally show ?thesis .
  qed
qed

lemma chunk_closed: "0 < sz \<Longrightarrow> chunk arr sz = Some (contiguous_groups sz arr)"
  by (simp add: chunk_def chunk_from_closed slice_def contiguous_groups_def)

lemma length_contiguous_groups:
  "length (contiguous_groups sz xs) = (length xs + sz - 1) div sz"
  by (simp add: contiguous_groups_def)








section \<open>The batch read loop\<close>

text \<open>
  The calls of one run are the requests of the parts, in order, up to the part at which
  the run ends. A run that ends with a list has called every part and has appended the
  records of the replies in that order; a reply with a failing status, a rejected call
  and a body that does not parse each end the run with the matching exception.
\<close>

lemma batch_read_loop_trace:
  "batch_read_loop P net object properties parts all tr = (out, tr') \<Longrightarrow>
   \<exists>new. tr' = tr @ new
     \<and> map fst new = take (length new) (map (batch_read_request object properties) parts)
     \<and> (\<forall>all'. out = Inr all' \<longrightarrow>
           length new = length parts
           \<and> all' = all @ concat (map (\<lambda>x. reply_results P (snd x)) new))
     \<and> (\<forall>rq res. (rq, Inr res) \<in> set new \<and> \<not> ok res \<longrightarrow>
           out = Inl (Error (''HubSpot batch '' @ object @ '' '' @ digits (status res) @ '' ''
                             @ body_text res)))
     \<and> (\<forall>rq e. (rq, Inl e) \<in> set new \<longrightarrow> out = Inl e)
     \<and> (\<forall>rq res m. (rq, Inr res) \<in> set new \<and> ok res \<and> P (body_text res) = Inl m \<longrightarrow>
           out = Inl (SyntaxError m))"
proof (induction parts arbitrary: all tr out tr')
  case Nil
  then show ?case by auto
next
  case (Cons part parts)
  let ?req = "batch_read_request object properties part"
  let ?rep = "net tr ?req"
  let ?tr1 = "tr @ [(?req, ?rep)]"
  have f: "fetch net ?req tr = (?rep, ?tr1)" by (simp add: fetch_eq)
  show ?case
  proof (cases ?rep)
    case (Inl e)
    with Cons.prems f have "out = Inl e" "tr' = ?tr1" by simp_all
    then show ?thesis using Inl by (intro exI[of _ "[(?req, ?rep)]"]) simp
  next
    case (Inr res)
    note rep = this
    show ?thesis
    proof (cases "ok res")
      case False
      with Cons.prems f rep
      have "out = Inl (Error (''HubSpot batch '' @ object @ '' '' @ digits (status res) @ '' ''
                              @ body_text res))" "tr' = ?tr1"
        by simp_all
      then show ?thesis using rep False by (intro exI[of _ "[(?req, ?rep)]"]) simp
    next
      case True
      note okr = this
      show ?thesis
      proof (cases "P (body_text res)")
        case (Inl m)
        with Cons.prems f rep okr have "out = Inl (SyntaxError m)" "tr' = ?tr1" by simp_all
        then show ?thesis using rep okr Inl by (intro exI[of _ "[(?req, ?rep)]"]) simp
      next
        case (Inr json)
        note pj = this
        define xs where "xs = reply_results P ?rep"
        consider (stop) e r where "opt_chain (Some json) ''results'' = Some r" "truthy r"
                   "iterate r = Inl e"
          | (go) "batch_read_loop P net object properties (part # parts) all tr
                  = batch_read_loop P net object properties parts (all @ xs) ?tr1"
        proof (cases "opt_chain (Some json) ''results''")
          case None
          then have "xs = []" using rep pj by (simp add: xs_def reply_results_def)
          then show ?thesis using go f rep okr pj None by simp
        next
          case (Some r)
          show ?thesis
          proof (cases "truthy r")
            case False
            then have "(case iterate r of Inl e \<Rightarrow> [] | Inr ys \<Rightarrow> ys) = []"
              by (cases r) auto
            then have "xs = []" using rep pj Some by (simp add: xs_def reply_results_def)
            then show ?thesis using go f rep okr pj Some False by simp
          next
            case True
            show ?thesis
            proof (cases "iterate r")
              case (Inl e)
              then show ?thesis using stop Some True by blast
            next
              case (Inr ys)
              then have "xs = ys" using rep pj Some by (simp add: xs_def reply_results_def)
              then show ?thesis using go f rep okr pj Some True Inr by simp
            qed
          qed
        qed
        then show ?thesis
        proof cases
          case stop
          then have "out = Inl e" "tr' = ?tr1"
            using Cons.prems f rep okr pj by simp_all
          then show ?thesis using rep okr pj by (intro exI[of _ "[(?req, ?rep)]"]) simp
        next
          case go
          then have run:
            "batch_read_loop P net object properties parts (all @ xs) ?tr1 = (out, tr')"
            using Cons.prems by simp
          from Cons.IH[OF run] obtain new where n:
            "tr' = ?tr1 @ new"
            "map fst new = take (length new) (map (batch_read_request object properties) parts)"
            "\<forall>all'. out = Inr all' \<longrightarrow>
               length new = length parts
               \<and> all' = (all @ xs) @ concat (map (\<lambda>x. reply_results P (snd x)) new)"
            "\<forall>rq res. (rq, Inr res) \<in> set new \<and> \<not> ok res \<longrightarrow>
               out = Inl (Error (''HubSpot batch '' @ object @ '' '' @ digits (status res)
                                 @ '' '' @ body_text res))"
            "\<forall>rq e. (rq, Inl e) \<in> set new \<longrightarrow> out = Inl e"
            "\<forall>rq res m. (rq, Inr res) \<in> set new \<and> ok res \<and> P (body_text res) = Inl m \<longrightarrow>
               out = Inl (SyntaxError m)"
            by blast
          let ?new = "(?req, ?rep) # new"
          have c1: "tr' = tr @ ?new" using n(1) by simp
          have c2: "map fst ?new
                    = take (length ?new)
                        (map (batch_read_request object properties) (part # parts))"
            using n(2) by simp
          have c3: "\<forall>all'. out = Inr all' \<longrightarrow>
               length ?new = length (part # parts)
               \<and> all' = all @ concat (map (\<lambda>x. reply_results P (snd x)) ?new)"
            using n(3) by (simp add: xs_def)
          have c4: "\<forall>rq res'. (rq, Inr res') \<in> set ?new \<and> \<not> ok res' \<longrightarrow>
               out = Inl (Error (''HubSpot batch '' @ object @ '' '' @ digits (status res')
                                 @ '' '' @ body_text res'))"
            using n(4) rep okr by auto
          have c5: "\<forall>rq e. (rq, Inl e) \<in> set ?new \<longrightarrow> out = Inl e"
            using n(5) rep by auto
          have c6: "\<forall>rq res' m.
               (rq, Inr res') \<in> set ?new \<and> ok res' \<and> P (body_text res') = Inl m \<longrightarrow>
               out = Inl (SyntaxError m)"
            using n(6) rep pj by auto
          show ?thesis
            using c1 c2 c3 c4 c5 c6 by (intro exI[of _ ?new] conjI)
        qed
      qed
    qed
  qed
qed

text \<open>The handler always returns, and its outcome is the loop's, wrapped.\<close>

lemma hubspot_batch_read_eq:
  "hubspot_batch_read P net object ids properties tr =
     Some (case batch_read_loop P net object (default properties [])
                  (contiguous_groups 90 ids) [] tr of
             (Inl e, tr') \<Rightarrow> (asText (error_envelope e) (Some ''batch_read_error''), tr')
           | (Inr all, tr') \<Rightarrow>
               (asText (JObj [(''ok'', JBool True), (''results'', JArr all)])
                  (Some ''batch_read''), tr'))"
  by (simp add: hubspot_batch_read_def chunk_closed)

lemma batch_read_outcome:
  "\<exists>r new. hubspot_batch_read P net object ids properties tr = Some (r, tr @ new)
     \<and> map fst new
         = take (length new)
             (map (batch_read_request object (default properties []))
                (contiguous_groups 90 ids))
     \<and> ((\<exists>all. r = asText (JObj [(''ok'', JBool True), (''results'', JArr all)])
                      (Some ''batch_read'')) \<longrightarrow>
          length new = length (contiguous_groups 90 ids)
          \<and> r = asText (JObj [(''ok'', JBool True),
                               (''results'',
                                  JArr (concat (map (\<lambda>x. reply_results P (snd x)) new)))])
                  (Some ''batch_read''))
     \<and> (\<forall>rq res. (rq, Inr res) \<in> set new \<and> \<not> ok res \<longrightarrow>
          r = asText (error_envelope
                 (Error (''HubSpot batch '' @ object @ '' '' @ digits (status res) @ '' ''
                         @ body_text res)))
                (Some ''batch_read_error''))
     \<and> (\<forall>rq e. (rq, Inl e) \<in> set new \<longrightarrow>
          r = asText (error_envelope e) (Some ''batch_read_error''))
     \<and> (\<forall>rq res m. (rq, Inr res) \<in> set new \<and> ok res \<and> P (body_text res) = Inl m \<longrightarrow>
          r = asText (error_envelope (SyntaxError m)) (Some ''batch_read_error''))"
proof -
  obtain out tr' where run:
    "batch_read_loop P net object (default properties []) (contiguous_groups 90 ids) [] tr
     = (out, tr')"
    by (cases "batch_read_loop P net object (default properties [])
                 (contiguous_groups 90 ids) [] tr") blast
  from batch_read_loop_trace[OF run] obtain new where n:
    "tr' = tr @ new"
    "map fst new = take (length new)
       (map (batch_read_request object (default properties [])) (contiguous_groups 90 ids))"
    "\<forall>all'. out = Inr all' \<longrightarrow>
       length new = length (contiguous_groups 90 ids)
       \<and> all' = [] @ concat (map (\<lambda>x. reply_results P (snd x)) new)"
    "\<forall>rq res. (rq, Inr res) \<in> set new \<and> \<not> ok res \<longrightarrow>
       out = Inl (Error (''HubSpot batch '' @ object @ '' '' @ digits (status res)
                         @ '' '' @ body_text res))"
    "\<forall>rq e. (rq, Inl e) \<in> set new \<longrightarrow> out = Inl e"
    "\<forall>rq res m. (rq, Inr res) \<in> set new \<and> ok res \<and> P (body_text res) = Inl m \<longrightarrow>
       out = Inl (SyntaxError m)"
    by blast
  show ?thesis
  proof (cases out)
    case (Inl e)
    have r: "hubspot_batch_read P net object ids properties tr
             = Some (asText (error_envelope e) (Some ''batch_read_error''), tr @ new)"
      using run Inl n(1) by (simp add: hubspot_batch_read_eq)
    show ?thesis
      using n(2) n(4) n(5) n(6) Inl
      by (intro exI[of _ "asText (error_envelope e) (Some ''batch_read_error'')"]
                exI[of _ new] conjI r)
         (auto simp: asText_def error_envelope_def)
  next
    case (Inr all')
    have r: "hubspot_batch_read P net object ids properties tr
             = Some (asText (JObj [(''ok'', JBool True), (''results'', JArr all')])
                       (Some ''batch_read''), tr @ new)"
      using run Inr n(1) by (simp add: hubspot_batch_read_eq)
    show ?thesis
      using n(2) n(3) n(4) n(5) n(6) Inr
      by (intro exI[of _ "asText (JObj [(''ok'', JBool True), (''results'', JArr all')])
                            (Some ''batch_read'')"]
                exI[of _ new] conjI r)
         (auto simp: asText_def error_envelope_def)
  qed
qed



section \<open>Batch tools: the claims\<close>



text \<open>
  C6. When the reply to any group's call has a status outside 200..299, the batch read
  returns one failure envelope, \<open>ok: false\<close> with the error text of that reply, and
  not the success envelope: the records of the groups read before it are dropped.
\<close>

theorem batch_read_fails_as_a_whole:
  "\<exists>r new. hubspot_batch_read P net object ids properties tr = Some (r, tr @ new)
     \<and> (\<forall>rq res. (rq, Inr res) \<in> set new \<and> \<not> ok res \<longrightarrow>
          r = Content_text
                (JObj [(''label'', JStr ''batch_read_error''),
                       (''data'',
                          JObj [(''ok'', JBool False),
                                (''error'',
                                   JStr (''Error: HubSpot batch '' @ object @ '' ''
                                         @ digits (status res) @ '' '' @ body_text res))])])
          \<and> (\<forall>all. r \<noteq> asText (JObj [(''ok'', JBool True), (''results'', JArr all)])
                           (Some ''batch_read'')))"
proof -
  from batch_read_outcome[of P net object ids properties tr] obtain r new where o:
    "hubspot_batch_read P net object ids properties tr = Some (r, tr @ new)"
    "\<forall>rq res. (rq, Inr res) \<in> set new \<and> \<not> ok res \<longrightarrow>
       r = asText (error_envelope
              (Error (''HubSpot batch '' @ object @ '' '' @ digits (status res) @ '' ''
                      @ body_text res)))
             (Some ''batch_read_error'')"
    by blast
  have "\<forall>rq res. (rq, Inr res) \<in> set new \<and> \<not> ok res \<longrightarrow>
          r = Content_text
                (JObj [(''label'', JStr ''batch_read_error''),
                       (''data'',
                          JObj [(''ok'', JBool False),
                                (''error'',
                                   JStr (''Error: HubSpot batch '' @ object @ '' ''
                                         @ digits (status res) @ '' '' @ body_text res))])])
          \<and> (\<forall>all. r \<noteq> asText (JObj [(''ok'', JBool True), (''results'', JArr all)])
                           (Some ''batch_read''))"
  proof (intro allI impI)
    fix rq res
    assume "(rq, Inr res) \<in> set new \<and> \<not> ok res"
    with o(2) have "r = asText (error_envelope
              (Error (''HubSpot batch '' @ object @ '' '' @ digits (status res) @ '' ''
                      @ body_text res)))
             (Some ''batch_read_error'')"
      by blast
    then show "r = Content_text
                (JObj [(''label'', JStr ''batch_read_error''),
                       (''data'',
                          JObj [(''ok'', JBool False),
                                (''error'',
                                   JStr (''Error: HubSpot batch '' @ object @ '' ''
                                         @ digits (status res) @ '' '' @ body_text res))])])
          \<and> (\<forall>all. r \<noteq> asText (JObj [(''ok'', JBool True), (''results'', JArr all)])
                           (Some ''batch_read''))"
      by (simp add: asText_def error_envelope_def)
  qed
  with o(1) show ?thesis by blast
qed

theorem batch_read_fails_as_a_whole_witness:
  "\<exists>new. hubspot_batch_read (\<lambda>t. Inr (JObj [(''results'', JArr [JStr t])]))
            (\<lambda>tr rq. if tr = [] then Inr \<lparr>status = 200, body_text = ''first''\<rparr>
                       else Inr \<lparr>status = 500, body_text = ''boom''\<rparr>)
            ''deals'' (replicate 91 ''7'') None []
          = Some (Content_text
                    (JObj [(''label'', JStr ''batch_read_error''),
                           (''data'',
                              JObj [(''ok'', JBool False),
                                    (''error'',
                                       JStr ''Error: HubSpot batch deals 500 boom'')])]),
                  new)
     \<and> (batch_read_request ''deals'' [] [''7''],
         Inr \<lparr>status = 500, body_text = ''boom''\<rparr>) \<in> set new
     \<and> \<not> ok \<lparr>status = 500, body_text = ''boom''\<rparr>
     \<and> length new = 2"
proof -
  let ?P = "\<lambda>t. Inr (JObj [(''results'', JArr [JStr t])]) :: string + json"
  let ?net = "(\<lambda>tr rq. if tr = [] then Inr \<lparr>status = 200, body_text = ''first''\<rparr>
                       else Inr \<lparr>status = 500, body_text = ''boom''\<rparr>) :: net"
  let ?ids = "replicate 91 ''7''"
  let ?new = "[(batch_read_request ''deals'' [] (replicate 90 ''7''),
                Inr \<lparr>status = 200, body_text = ''first''\<rparr>),
               (batch_read_request ''deals'' [] [''7''],
                Inr \<lparr>status = 500, body_text = ''boom''\<rparr>)] :: trace"
  have two: "[0..<2] = [0, 1::nat]" by (simp add: numeral_2_eq_2)
  have g: "contiguous_groups 90 ?ids = [replicate 90 ''7'', [''7'']]"
    by (simp add: contiguous_groups_def two)
  have "\<exists>r. hubspot_batch_read ?P ?net ''deals'' ?ids None [] = Some (r, ?new)"
    by (simp add: hubspot_batch_read_eq g default_def fetch_eq ok_def opt_chain_def)
  then obtain r0 where run: "hubspot_batch_read ?P ?net ''deals'' ?ids None [] = Some (r0, ?new)"
    by blast
  from batch_read_fails_as_a_whole[of ?P ?net "''deals''" ?ids None "[]"] obtain r new where o:
    "hubspot_batch_read ?P ?net ''deals'' ?ids None [] = Some (r, [] @ new)"
    "\<forall>rq res. (rq, Inr res) \<in> set new \<and> \<not> ok res \<longrightarrow>
       r = Content_text
             (JObj [(''label'', JStr ''batch_read_error''),
                    (''data'',
                       JObj [(''ok'', JBool False),
                             (''error'',
                                JStr (''Error: HubSpot batch '' @ ''deals'' @ '' ''
                                      @ digits (status res) @ '' '' @ body_text res))])])
          \<and> (\<forall>all. r \<noteq> asText (JObj [(''ok'', JBool True), (''results'', JArr all)])
                           (Some ''batch_read''))"
    by blast
  have eqs: "r = r0" "new = ?new" using run o(1) by simp_all
  have bad: "\<not> ok \<lparr>status = 500, body_text = ''boom''\<rparr>" by (simp add: ok_def)
  have mem: "(batch_read_request ''deals'' [] [''7''],
              Inr \<lparr>status = 500, body_text = ''boom''\<rparr>) \<in> set new"
    by (simp add: eqs)
  from o(2) mem bad
  have "r = Content_text
             (JObj [(''label'', JStr ''batch_read_error''),
                    (''data'',
                       JObj [(''ok'', JBool False),
                             (''error'',
                                JStr (''Error: HubSpot batch '' @ ''deals'' @ '' ''
                                      @ digits (status \<lparr>status = 500, body_text = ''boom''\<rparr>)
                                      @ '' '' @ body_text \<lparr>status = 500, body_text = ''boom''\<rparr>))])])"
    by blast
  then have "r = Content_text
             (JObj [(''label'', JStr ''batch_read_error''),
                    (''data'',
                       JObj [(''ok'', JBool False),
                             (''error'', JStr ''Error: HubSpot batch deals 500 boom'')])])"
    by (simp add: digits_500)
  then show ?thesis using o(1) mem bad eqs by (intro exI[of _ new]) simp
qed

text \<open>The association read makes one call, whatever the number of identifiers.\<close>

lemma associations_single_call:
  "\<exists>r rep. hubspot_associations_batch P net from_object to_object ids tr
            = (r, tr @ [(associations_request from_object to_object ids, rep)])"
  by (simp add: hubspot_associations_batch_def fetch_eq split: sum.splits)

text \<open>
  C5. The claim: the association read, too, sends its identifiers in groups of at most
  90, one call per group. The handler does not call \<^verbatim>\<open>chunk\<close>: whatever the
  number of identifiers, it makes one call whose \<^verbatim>\<open>inputs\<close> are all of them.
  With 91 identifiers, where the groups would be two, the run is one call with 91
  inputs.
\<close>

theorem associations_batch_not_chunked:
  "(\<forall>P net tr. \<exists>r rep.
      hubspot_associations_batch P net ''companies'' ''deals'' (replicate 91 ''7'') tr
        = (r, tr @ [(associations_request ''companies'' ''deals'' (replicate 91 ''7''), rep)]))
   \<and> req_body (associations_request ''companies'' ''deals'' (replicate 91 ''7''))
       = Some (JObj [(''inputs'', JArr (replicate 91 (JObj [(''id'', JStr ''7'')])))])
   \<and> length (replicate 91 (JObj [(''id'', JStr ''7'')])) = 91
   \<and> length (contiguous_groups 90 (replicate 91 ''7'')) = 2"
  using associations_single_call[of _ _ "''companies''" "''deals''" "replicate 91 ''7''"]
  by (simp add: associations_request_def id_inputs_def length_contiguous_groups)

section \<open>Search tools and the owner list: the claims\<close>

lemma paging_or_null:
  "nullish (opt_chain (Some (JObj flds)) ''paging'') JNull
   = (case map_of flds ''paging'' of None \<Rightarrow> JNull | Some p \<Rightarrow> p)"
  by (simp add: nullish_def opt_chain_def split: option.splits json.splits)

lemma search_envelope_of_results:
  "map_of flds ''results'' = Some (JArr rs) \<Longrightarrow>
   search_envelope (JObj flds)
   = JObj [(''ok'', JBool True), (''count'', JNum (int (length rs))), (''results'', JArr rs),
           (''paging'', case map_of flds ''paging'' of None \<Rightarrow> JNull | Some p \<Rightarrow> p)]"
  by (simp add: search_envelope_def paging_or_null) (simp add: nullish_def opt_chain_def)

text \<open>
  The older file's \<^verbatim>\<open>hubspot.deals.search\<close> makes the same single call with its
  own fixed property list, and it returns the remote data as it is, with no envelope;
  a failing status leaves the handler as an exception.
\<close>

lemma deals_search_v1_behaviour:
  "hubspot_deals_search_v1 P net (Some ''closedwon'') None tr
   = ((case net tr \<lparr>req_method = POST, req_path = ''/crm/v3/objects/deals/search'',
                     req_query = [],
                     req_body = Some (JObj
                       [(''filterGroups'',
                           JArr [JObj [(''filters'',
                             JArr [JObj [(''propertyName'', JStr ''dealstage''),
                                         (''operator'', JStr ''EQ''),
                                         (''value'', JStr ''closedwon'')]])]]),
                        (''limit'', JNum 20),
                        (''properties'',
                           JArr [JStr ''dealname'', JStr ''amount'', JStr ''dealstage'',
                                 JStr ''pipeline'', JStr ''hs_close_date''])])\<rparr> of
         Inl e \<Rightarrow> Inl e
       | Inr res \<Rightarrow>
           if \<not> ok res
           then Inl (Error (''HubSpot '' @ digits (status res) @ '' '' @ body_text res))
           else (case P (body_text res) of
                   Inl m \<Rightarrow> Inl (SyntaxError m)
                 | Inr data \<Rightarrow> Inr (Content_json data))),
      tr @ [(\<lparr>req_method = POST, req_path = ''/crm/v3/objects/deals/search'',
              req_query = [],
              req_body = Some (JObj
                [(''filterGroups'',
                    JArr [JObj [(''filters'',
                      JArr [JObj [(''propertyName'', JStr ''dealstage''),
                                  (''operator'', JStr ''EQ''),
                                  (''value'', JStr ''closedwon'')]])]]),
                 (''limit'', JNum 20),
                 (''properties'',
                    JArr [JStr ''dealname'', JStr ''amount'', JStr ''dealstage'',
                          JStr ''pipeline'', JStr ''hs_close_date''])])\<rparr>,
             net tr \<lparr>req_method = POST, req_path = ''/crm/v3/objects/deals/search'',
                     req_query = [],
                     req_body = Some (JObj
                       [(''filterGroups'',
                           JArr [JObj [(''filters'',
                             JArr [JObj [(''propertyName'', JStr ''dealstage''),
                                         (''operator'', JStr ''EQ''),
                                         (''value'', JStr ''closedwon'')]])]]),
                        (''limit'', JNum 20),
                        (''properties'',
                           JArr [JStr ''dealname'', JStr ''amount'', JStr ''dealstage'',
                                 JStr ''pipeline'', JStr ''hs_close_date''])])\<rparr>)])"
  by (simp add: hubspot_deals_search_v1_def hsPOST_v1_def given_def default_def eq_filter_def
        fetch_eq Let_def split: sum.splits)

text \<open>
  C8. The claim: the deals search with only \<open>stage = ''closedwon''\<close> makes one filtered
  call with the default property list and, on a 200 reply with \<open>K\<close> results, returns
  the envelope \<open>ok: true, count: K, results, paging\<close>. The repository has two deals
  search tools. The one of \<^verbatim>\<open>src/server.js\<close>, \<^verbatim>\<open>hubspot.deals.search\<close>,
  sends its own five properties and returns the remote data as a content item of type
  json: for a 200 reply with two results there is no envelope and no count.
\<close>

theorem deals_search_v1_returns_no_envelope:
  "hubspot_deals_search_v1
     (\<lambda>t. Inr (JObj [(''results'', JArr [JStr ''deal A'', JStr ''deal B''])]))
     (\<lambda>tr rq. Inr \<lparr>status = 200, body_text = ''{...}''\<rparr>)
     (Some ''closedwon'') None []
   = (Inr (Content_json (JObj [(''results'', JArr [JStr ''deal A'', JStr ''deal B''])])),
      [(\<lparr>req_method = POST, req_path = ''/crm/v3/objects/deals/search'',
                 req_query = [],
                 req_body = Some (JObj
                   [(''filterGroups'',
                       JArr [JObj [(''filters'',
                         JArr [JObj [(''propertyName'', JStr ''dealstage''),
                                     (''operator'', JStr ''EQ''),
                                     (''value'', JStr ''closedwon'')]])]]),
                    (''limit'', JNum 20),
                    (''properties'',
                       JArr [JStr ''dealname'', JStr ''amount'', JStr ''dealstage'',
                             JStr ''pipeline'', JStr ''hs_close_date''])])\<rparr>,
        Inr \<lparr>status = 200, body_text = ''{...}''\<rparr>)])
   \<and> Content_json (JObj [(''results'', JArr [JStr ''deal A'', JStr ''deal B''])])
       \<noteq> Content_text
           (JObj [(''label'', JStr ''deals''),
                  (''data'',
                     JObj [(''ok'', JBool True), (''count'', JNum 2),
                           (''results'', JArr [JStr ''deal A'', JStr ''deal B'']),
                           (''paging'', JNull)])])
   \<and> map JStr deals_default_properties
       \<noteq> [JStr ''dealname'', JStr ''amount'', JStr ''dealstage'', JStr ''pipeline'',
            JStr ''hs_close_date'']"
  by (simp add: deals_search_v1_behaviour ok_def deals_default_properties_def)

text \<open>
  C8 as amended. \<^verbatim>\<open>hubspot_deals_search\<close> (server version 1.2.0) with only
  \<open>stage = ''closedwon''\<close> makes exactly one call, a POST to the deals search whose body
  has one filter group with the one filter \<open>dealstage EQ closedwon\<close>, the default
  property list and the default limit; when the reply is 200 and its body parses to an
  object whose \<^verbatim>\<open>results\<close> is an array of \<open>K\<close> elements, the handler returns
  the envelope with \<open>ok: true\<close>, \<open>count: K\<close>, these results, and the remote's
  \<^verbatim>\<open>paging\<close> or \<^verbatim>\<open>null\<close>. \<^verbatim>\<open>hubspot.deals.search\<close> of
  \<^verbatim>\<open>src/server.js\<close>, called the same way, makes exactly one call with the same
  single filter, the default limit and its fixed list of five properties; when the
  reply is 200 and its body parses, the handler returns the parsed body, unchanged, as
  one content item of type json.
\<close>

theorem deals_search_closedwon:
  "(\<exists>r rep. hubspot_deals_search P net (Some ''closedwon'') None None None tr
       = (r, tr @ [(\<lparr>req_method = POST, req_path = ''/crm/v3/objects/deals/search'',
                     req_query = [],
                     req_body = Some (JObj
                       [(''filterGroups'',
                           JArr [JObj [(''filters'',
                             JArr [JObj [(''propertyName'', JStr ''dealstage''),
                                         (''operator'', JStr ''EQ''),
                                         (''value'', JStr ''closedwon'')]])]]),
                        (''properties'',
                           JArr [JStr ''dealname'', JStr ''amount'', JStr ''dealstage'',
                                 JStr ''pipeline'', JStr ''createdate'', JStr ''hs_close_date'',
                                 JStr ''hubspot_owner_id'']),
                        (''limit'', JNum 20)])\<rparr>, rep)]))
   \<and> (\<forall>res flds rs.
         net tr \<lparr>req_method = POST, req_path = ''/crm/v3/objects/deals/search'',
                 req_query = [],
                 req_body = Some (JObj
                   [(''filterGroups'',
                       JArr [JObj [(''filters'',
                         JArr [JObj [(''propertyName'', JStr ''dealstage''),
                                     (''operator'', JStr ''EQ''),
                                     (''value'', JStr ''closedwon'')]])]]),
                    (''properties'',
                       JArr [JStr ''dealname'', JStr ''amount'', JStr ''dealstage'',
                             JStr ''pipeline'', JStr ''createdate'', JStr ''hs_close_date'',
                             JStr ''hubspot_owner_id'']),
                    (''limit'', JNum 20)])\<rparr> = Inr res
         \<and> status res = 200
         \<and> P (body_text res) = Inr (JObj flds)
         \<and> map_of flds ''results'' = Some (JArr rs) \<longrightarrow>
         fst (hubspot_deals_search P net (Some ''closedwon'') None None None tr)
         = Content_text
             (JObj [(''label'', JStr ''deals''),
                    (''data'',
                       JObj [(''ok'', JBool True),
                             (''count'', JNum (int (length rs))),
                             (''results'', JArr rs),
                             (''paging'', case map_of flds ''paging'' of
                                            None \<Rightarrow> JNull | Some p \<Rightarrow> p)])]))
   \<and> (\<exists>r rep. hubspot_deals_search_v1 P net (Some ''closedwon'') None tr
         = (r, tr @ [(\<lparr>req_method = POST, req_path = ''/crm/v3/objects/deals/search'',
                 req_query = [],
                 req_body = Some (JObj
                   [(''filterGroups'',
                       JArr [JObj [(''filters'',
                         JArr [JObj [(''propertyName'', JStr ''dealstage''),
                                     (''operator'', JStr ''EQ''),
                                     (''value'', JStr ''closedwon'')]])]]),
                    (''limit'', JNum 20),
                    (''properties'',
                       JArr [JStr ''dealname'', JStr ''amount'', JStr ''dealstage'',
                             JStr ''pipeline'', JStr ''hs_close_date''])])\<rparr>, rep)]))
   \<and> (\<forall>res data.
         net tr \<lparr>req_method = POST, req_path = ''/crm/v3/objects/deals/search'',
                 req_query = [],
                 req_body = Some (JObj
                   [(''filterGroups'',
                       JArr [JObj [(''filters'',
                         JArr [JObj [(''propertyName'', JStr ''dealstage''),
                                     (''operator'', JStr ''EQ''),
                                     (''value'', JStr ''closedwon'')]])]]),
                    (''limit'', JNum 20),
                    (''properties'',
                       JArr [JStr ''dealname'', JStr ''amount'', JStr ''dealstage'',
                             JStr ''pipeline'', JStr ''hs_close_date''])])\<rparr> = Inr res
         \<and> status res = 200
         \<and> P (body_text res) = Inr data \<longrightarrow>
         fst (hubspot_deals_search_v1 P net (Some ''closedwon'') None tr)
         = Inr (Content_json data))"
proof -
  let ?req = "\<lparr>req_method = POST, req_path = ''/crm/v3/objects/deals/search'',
                req_query = [],
                req_body = Some (JObj
                  [(''filterGroups'',
                      JArr [JObj [(''filters'',
                        JArr [JObj [(''propertyName'', JStr ''dealstage''),
                                    (''operator'', JStr ''EQ''),
                                    (''value'', JStr ''closedwon'')]])]]),
                   (''properties'',
                      JArr [JStr ''dealname'', JStr ''amount'', JStr ''dealstage'',
                            JStr ''pipeline'', JStr ''createdate'', JStr ''hs_close_date'',
                            JStr ''hubspot_owner_id'']),
                   (''limit'', JNum 20)])\<rparr>"
  have run: "hubspot_deals_search P net (Some ''closedwon'') None None None tr
        = ((case parsed_reply P (net tr ?req) of
              Inl e \<Rightarrow> asText (error_envelope e) (Some ''deals_error'')
            | Inr data \<Rightarrow> asText (search_envelope data) (Some ''deals'')),
           tr @ [(?req, net tr ?req)])"
    by (simp add: hubspot_deals_search_def deals_filters_def given_def default_def eq_filter_def
          deals_default_properties_def hsPOST_eq Let_def split: sum.splits)
  have one: "\<exists>r rep. hubspot_deals_search P net (Some ''closedwon'') None None None tr
                      = (r, tr @ [(?req, rep)])"
    unfolding run by blast
  have good: "\<forall>res flds rs.
         net tr ?req = Inr res \<and> status res = 200 \<and> P (body_text res) = Inr (JObj flds)
         \<and> map_of flds ''results'' = Some (JArr rs) \<longrightarrow>
         fst (hubspot_deals_search P net (Some ''closedwon'') None None None tr)
         = Content_text
             (JObj [(''label'', JStr ''deals''),
                    (''data'',
                       JObj [(''ok'', JBool True),
                             (''count'', JNum (int (length rs))),
                             (''results'', JArr rs),
                             (''paging'', case map_of flds ''paging'' of
                                            None \<Rightarrow> JNull | Some p \<Rightarrow> p)])])"
    unfolding run
    by (simp add: parsed_reply_def ok_def search_envelope_of_results asText_def)
  have one_v1: "\<exists>r rep. hubspot_deals_search_v1 P net (Some ''closedwon'') None tr
         = (r, tr @ [(\<lparr>req_method = POST, req_path = ''/crm/v3/objects/deals/search'',
                 req_query = [],
                 req_body = Some (JObj
                   [(''filterGroups'',
                       JArr [JObj [(''filters'',
                         JArr [JObj [(''propertyName'', JStr ''dealstage''),
                                     (''operator'', JStr ''EQ''),
                                     (''value'', JStr ''closedwon'')]])]]),
                    (''limit'', JNum 20),
                    (''properties'',
                       JArr [JStr ''dealname'', JStr ''amount'', JStr ''dealstage'',
                             JStr ''pipeline'', JStr ''hs_close_date''])])\<rparr>, rep)])"
    unfolding deals_search_v1_behaviour by blast
  have good_v1: "\<forall>res data.
         net tr \<lparr>req_method = POST, req_path = ''/crm/v3/objects/deals/search'',
                 req_query = [],
                 req_body = Some (JObj
                   [(''filterGroups'',
                       JArr [JObj [(''filters'',
                         JArr [JObj [(''propertyName'', JStr ''dealstage''),
                                     (''operator'', JStr ''EQ''),
                                     (''value'', JStr ''closedwon'')]])]]),
                    (''limit'', JNum 20),
                    (''properties'',
                       JArr [JStr ''dealname'', JStr ''amount'', JStr ''dealstage'',
                             JStr ''pipeline'', JStr ''hs_close_date''])])\<rparr> = Inr res
         \<and> status res = 200
         \<and> P (body_text res) = Inr data \<longrightarrow>
         fst (hubspot_deals_search_v1 P net (Some ''closedwon'') None tr)
         = Inr (Content_json data)"
    unfolding deals_search_v1_behaviour by (simp add: ok_def)
  from one good one_v1 good_v1 show ?thesis by (intro conjI)
qed

theorem deals_search_closedwon_witness:
  "fst (hubspot_deals_search
          (\<lambda>t. Inr (JObj [(''results'', JArr [JStr ''deal A'', JStr ''deal B'']),
                           (''paging'', JObj [(''next'', JStr ''p2'')])]))
          (\<lambda>tr rq. Inr \<lparr>status = 200, body_text = ''{...}''\<rparr>)
          (Some ''closedwon'') None None None [])
   = Content_text
       (JObj [(''label'', JStr ''deals''),
              (''data'',
                 JObj [(''ok'', JBool True),
                       (''count'', JNum 2),
                       (''results'', JArr [JStr ''deal A'', JStr ''deal B'']),
                       (''paging'', JObj [(''next'', JStr ''p2'')])])])
   \<and> fst (hubspot_deals_search_v1
          (\<lambda>t. Inr (JObj [(''results'', JArr [JStr ''deal A'', JStr ''deal B'']),
                           (''paging'', JObj [(''next'', JStr ''p2'')])]))
          (\<lambda>tr rq. Inr \<lparr>status = 200, body_text = ''{...}''\<rparr>)
          (Some ''closedwon'') None [])
     = Inr (Content_json
              (JObj [(''results'', JArr [JStr ''deal A'', JStr ''deal B'']),
                     (''paging'', JObj [(''next'', JStr ''p2'')])]))"
  using deals_search_closedwon
    [of "\<lambda>t. Inr (JObj [(''results'', JArr [JStr ''deal A'', JStr ''deal B'']),
                         (''paging'', JObj [(''next'', JStr ''p2'')])])"
        "\<lambda>tr rq. Inr \<lparr>status = 200, body_text = ''{...}''\<rparr>" "[]"]
  by simp

text \<open>The object spread: every copied field arrives, and the keys are the union.\<close>

lemma fold_update_lookup:
  "distinct (map fst fs) \<Longrightarrow>
   map_of (fold (\<lambda>(k, x) acc. AList.update k x acc) fs base) k
   = (case map_of fs k of Some v \<Rightarrow> Some v | None \<Rightarrow> map_of base k)"
proof (induction fs arbitrary: base)
  case Nil
  show ?case by simp
next
  case (Cons p fs)
  obtain a b where p: "p = (a, b)" by (cases p)
  from Cons.prems p have d: "distinct (map fst fs)" and a: "a \<notin> fst ` set fs" by auto
  from a have na: "map_of fs a = None" by (simp add: map_of_eq_None_iff)
  show ?case
    using Cons.IH[OF d, of "AList.update a b base"] na
    by (simp add: p update_conv' split: option.splits)
qed

lemma fold_update_keys:
  "fst ` set (fold (\<lambda>(k, x) acc. AList.update k x acc) fs base) = fst ` set base \<union> fst ` set fs"
proof (induction fs arbitrary: base)
  case Nil
  show ?case by simp
next
  case (Cons p fs)
  obtain a b where p: "p = (a, b)" by (cases p)
  show ?case using Cons.IH[of "AList.update a b base"] by (auto simp: p dom_update)
qed

text \<open>
  C9. The owner list called with no arguments makes exactly one call: a GET of
  \<^verbatim>\<open>/crm/v3/owners/\<close> whose only search parameter is \<open>limit=100\<close>, so there is
  no \<^verbatim>\<open>after\<close>. When the reply has a success status and its body parses to an
  object, the envelope's data is \<^verbatim>\<open>{ ok: true, ...data }\<close>: every top-level field
  of the remote object is in it with its value unchanged, \<open>ok\<close> is true unless the
  remote object has an \<open>ok\<close> of its own, and it has no other key.
\<close>

theorem owners_list_defaults:
  "(\<exists>r rep. hubspot_owners_list P net None None tr
       = (r, tr @ [(\<lparr>req_method = GET, req_path = ''/crm/v3/owners/'',
                     req_query = [(''limit'', ''100'')], req_body = None\<rparr>, rep)]))
   \<and> (\<forall>res flds.
         net tr \<lparr>req_method = GET, req_path = ''/crm/v3/owners/'',
                 req_query = [(''limit'', ''100'')], req_body = None\<rparr> = Inr res
         \<and> ok res \<and> P (body_text res) = Inr (JObj flds) \<and> distinct (map fst flds) \<longrightarrow>
         (\<exists>env. fst (hubspot_owners_list P net None None tr)
                  = Content_text (JObj [(''label'', JStr ''owners''), (''data'', JObj env)])
            \<and> env = spread [(''ok'', JBool True)] (JObj flds)
            \<and> (\<forall>k v. map_of flds k = Some v \<longrightarrow> map_of env k = Some v)
            \<and> (map_of flds ''ok'' = None \<longrightarrow> map_of env ''ok'' = Some (JBool True))
            \<and> fst ` set env = insert ''ok'' (fst ` set flds)))"
proof -
  let ?req = "\<lparr>req_method = GET, req_path = ''/crm/v3/owners/'',
                req_query = [(''limit'', ''100'')], req_body = None\<rparr>"
  have q: "searchParams [(''after'', qstring None), (''limit'', QNum (default None 100))]
           = [(''limit'', ''100'')]"
    by (simp add: searchParams_def qstring_def default_def String_int_def digits_100)
  have run: "hubspot_owners_list P net None None tr
        = ((case parsed_reply P (net tr ?req) of
              Inl e \<Rightarrow> asText (error_envelope e) (Some ''owners_error'')
            | Inr data \<Rightarrow> asText (JObj (spread [(''ok'', JBool True)] data)) (Some ''owners'')),
           tr @ [(?req, net tr ?req)])"
    by (simp add: hubspot_owners_list_def hsGET_eq q split: sum.splits)
  have one: "\<exists>r rep. hubspot_owners_list P net None None tr = (r, tr @ [(?req, rep)])"
    unfolding run by blast
  have good: "\<forall>res flds.
         net tr ?req = Inr res \<and> ok res \<and> P (body_text res) = Inr (JObj flds)
         \<and> distinct (map fst flds) \<longrightarrow>
         (\<exists>env. fst (hubspot_owners_list P net None None tr)
                  = Content_text (JObj [(''label'', JStr ''owners''), (''data'', JObj env)])
            \<and> env = spread [(''ok'', JBool True)] (JObj flds)
            \<and> (\<forall>k v. map_of flds k = Some v \<longrightarrow> map_of env k = Some v)
            \<and> (map_of flds ''ok'' = None \<longrightarrow> map_of env ''ok'' = Some (JBool True))
            \<and> fst ` set env = insert ''ok'' (fst ` set flds))"
  proof (intro allI impI)
    fix res flds
    assume h: "net tr ?req = Inr res \<and> ok res \<and> P (body_text res) = Inr (JObj flds)
               \<and> distinct (map fst flds)"
    let ?env = "spread [(''ok'', JBool True)] (JObj flds)"
    have r: "fst (hubspot_owners_list P net None None tr)
             = Content_text (JObj [(''label'', JStr ''owners''), (''data'', JObj ?env)])"
      using h unfolding run by (simp add: parsed_reply_def asText_def)
    have l: "\<And>k. map_of ?env k
               = (case map_of flds k of Some v \<Rightarrow> Some v
                  | None \<Rightarrow> map_of [(''ok'', JBool True)] k)"
      using h by (simp add: spread_def fold_update_lookup)
    have k: "fst ` set ?env = insert ''ok'' (fst ` set flds)"
      by (simp add: spread_def fold_update_keys)
    show "\<exists>env. fst (hubspot_owners_list P net None None tr)
                  = Content_text (JObj [(''label'', JStr ''owners''), (''data'', JObj env)])
            \<and> env = spread [(''ok'', JBool True)] (JObj flds)
            \<and> (\<forall>k v. map_of flds k = Some v \<longrightarrow> map_of env k = Some v)
            \<and> (map_of flds ''ok'' = None \<longrightarrow> map_of env ''ok'' = Some (JBool True))
            \<and> fst ` set env = insert ''ok'' (fst ` set flds)"
      using r k by (intro exI[of _ ?env]) (simp add: l)
  qed
  from one good show ?thesis by (rule conjI)
qed

theorem owners_list_defaults_witness:
  "ok \<lparr>status = 200, body_text = ''{...}''\<rparr>
   \<and> distinct (map fst [(''results'', JArr [JStr ''owner 1'']), (''total'', JNum 1)])
   \<and> hubspot_owners_list
        (\<lambda>t. Inr (JObj [(''results'', JArr [JStr ''owner 1'']), (''total'', JNum 1)]))
        (\<lambda>tr rq. Inr \<lparr>status = 200, body_text = ''{...}''\<rparr>) None None []
      = (Content_text
           (JObj [(''label'', JStr ''owners''),
                  (''data'',
                     JObj [(''ok'', JBool True), (''results'', JArr [JStr ''owner 1'']),
                           (''total'', JNum 1)])]),
         [(\<lparr>req_method = GET, req_path = ''/crm/v3/owners/'',
             req_query = [(''limit'', ''100'')], req_body = None\<rparr>,
           Inr \<lparr>status = 200, body_text = ''{...}''\<rparr>)])"
proof -
  let ?P = "\<lambda>t. Inr (JObj [(''results'', JArr [JStr ''owner 1'']), (''total'', JNum 1)])
              :: string + json"
  let ?net = "(\<lambda>tr rq. Inr \<lparr>status = 200, body_text = ''{...}''\<rparr>) :: net"
  have okr: "ok \<lparr>status = 200, body_text = ''{...}''\<rparr>" by (simp add: ok_def)
  from owners_list_defaults[of ?P ?net "[]"] okr
  obtain r rep env where o:
    "hubspot_owners_list ?P ?net None None []
       = (r, [] @ [(\<lparr>req_method = GET, req_path = ''/crm/v3/owners/'',
                     req_query = [(''limit'', ''100'')], req_body = None\<rparr>, rep)])"
    "fst (hubspot_owners_list ?P ?net None None [])
       = Content_text (JObj [(''label'', JStr ''owners''), (''data'', JObj env)])"
    "env = spread [(''ok'', JBool True)]
             (JObj [(''results'', JArr [JStr ''owner 1'']), (''total'', JNum 1)])"
    by auto
  have rep: "rep = Inr \<lparr>status = 200, body_text = ''{...}''\<rparr>"
    using o(1) by (simp add: hubspot_owners_list_def hsGET_eq split: sum.splits prod.splits)
  have env: "env = [(''ok'', JBool True), (''results'', JArr [JStr ''owner 1'']),
                    (''total'', JNum 1)]"
    by (simp add: o(3) spread_def)
  show ?thesis using o(1) o(2) okr by (simp add: rep env)
qed

section \<open>Every tool: one shape of outcome\<close>

lemma invoke_hs:
  "\<not> parses_itself tc \<Longrightarrow>
   \<exists>rq. invoke P net tc tr
          = Some (hs_result tc (parsed_reply P (net tr rq)), tr @ [(rq, net tr rq)])"
  by (cases tc)
     (simp_all add: hs_result_def error_label_def hsPOST_eq hsGET_eq Let_def
        hubspot_contacts_search_def hubspot_companies_search_def hubspot_deals_search_def
        hubspot_owners_list_def hubspot_properties_def hubspot_pipelines_def
        hubspot_paginate_def hubspot_recently_modified_def hubspot_search_advanced_def
        split: sum.splits)

lemma success_label_not_empty: "success_label tc \<noteq> []"
  by (cases tc) simp_all

lemma search_style_parses_not: "search_style tc \<Longrightarrow> \<not> parses_itself tc"
  by (cases tc) simp_all

text \<open>The count of a search envelope is the length of its own results.\<close>

lemma search_envelope_invariant:
  "\<exists>cnt rs pg.
     search_envelope data
       = JObj [(''ok'', JBool True), (''count'', cnt), (''results'', rs), (''paging'', pg)]
     \<and> cnt = nullish (opt_chain (Some rs) ''length'') (JNum 0)
     \<and> (\<forall>xs. rs = JArr xs \<longrightarrow> cnt = JNum (int (length xs)))
     \<and> (\<forall>xs. opt_chain (Some data) ''results'' = Some (JArr xs) \<longrightarrow> rs = JArr xs)
     \<and> (opt_chain (Some data) ''results'' = None \<longrightarrow> rs = JArr [] \<and> cnt = JNum 0)
     \<and> (opt_chain (Some data) ''paging'' = None \<longrightarrow> pg = JNull)"
proof -
  let ?oc = "opt_chain (Some data) ''results''"
  let ?rs = "nullish ?oc (JArr [])"
  let ?cnt = "nullish (opt_chain ?oc ''length'') (JNum 0)"
  let ?pg = "nullish (opt_chain (Some data) ''paging'') JNull"
  have e: "search_envelope data
           = JObj [(''ok'', JBool True), (''count'', ?cnt), (''results'', ?rs), (''paging'', ?pg)]"
    by (simp add: search_envelope_def)
  have i1: "?cnt = nullish (opt_chain (Some ?rs) ''length'') (JNum 0)"
  proof (cases ?oc)
    case None
    then show ?thesis by (simp add: nullish_def opt_chain_def)
  next
    case (Some x)
    then show ?thesis by (cases x) (simp_all add: nullish_def opt_chain_def)
  qed
  have i2: "\<forall>xs. ?rs = JArr xs \<longrightarrow> ?cnt = JNum (int (length xs))"
  proof (cases ?oc)
    case None
    then show ?thesis by (simp add: nullish_def opt_chain_def)
  next
    case (Some x)
    then show ?thesis by (cases x) (simp_all add: nullish_def opt_chain_def)
  qed
  have i3: "\<forall>xs. ?oc = Some (JArr xs) \<longrightarrow> ?rs = JArr xs"
    by (simp add: nullish_def)
  have i4: "?oc = None \<longrightarrow> ?rs = JArr [] \<and> ?cnt = JNum 0"
    by (simp add: nullish_def opt_chain_def)
  have i5: "opt_chain (Some data) ''paging'' = None \<longrightarrow> ?pg = JNull"
    by (simp add: nullish_def)
  show ?thesis
    using e i1 i2 i3 i4 i5 by (intro exI[of _ ?cnt] exI[of _ ?rs] exI[of _ ?pg] conjI)
qed

text \<open>
  C10. Each of the five search tools makes one call, and whenever the reply is taken as
  data (no exception from the helper) the handler returns the envelope
  \<open>ok: true, count, results, paging\<close> in which the count is the length of the results:
  the \<^verbatim>\<open>length\<close> of that very value, hence the number of elements when it is an
  array. The results are the remote \<^verbatim>\<open>results\<close>, and the empty array when the remote
  data has none; the paging is \<^verbatim>\<open>null\<close> when the remote data has none. Otherwise
  the envelope is the failure envelope, which has no count.
\<close>

theorem search_count_is_results_length:
  "search_style tc \<longrightarrow>
   (\<exists>r rq rep. invoke P net tc tr = Some (r, tr @ [(rq, rep)])
      \<and> (\<forall>e. parsed_reply P rep = Inl e \<longrightarrow>
            r = Content_text
                  (JObj [(''label'', JStr (error_label tc)),
                         (''data'', JObj [(''ok'', JBool False),
                                          (''error'', JStr (String_exn e))])]))
      \<and> (\<forall>data. parsed_reply P rep = Inr data \<longrightarrow>
            (\<exists>cnt rs pg.
               r = Content_text
                     (JObj [(''label'', JStr (success_label tc)),
                            (''data'', JObj [(''ok'', JBool True), (''count'', cnt),
                                             (''results'', rs), (''paging'', pg)])])
               \<and> cnt = nullish (opt_chain (Some rs) ''length'') (JNum 0)
               \<and> (\<forall>xs. rs = JArr xs \<longrightarrow> cnt = JNum (int (length xs)))
               \<and> (\<forall>xs. opt_chain (Some data) ''results'' = Some (JArr xs) \<longrightarrow> rs = JArr xs)
               \<and> (opt_chain (Some data) ''results'' = None \<longrightarrow> rs = JArr [] \<and> cnt = JNum 0)
               \<and> (opt_chain (Some data) ''paging'' = None \<longrightarrow> pg = JNull))))"
proof
  assume s: "search_style tc"
  from invoke_hs[OF search_style_parses_not[OF s], of P net tr] obtain rq where inv:
    "invoke P net tc tr
     = Some (hs_result tc (parsed_reply P (net tr rq)), tr @ [(rq, net tr rq)])"
    by blast
  let ?rep = "net tr rq"
  let ?r = "hs_result tc (parsed_reply P ?rep)"
  have el: "error_label tc \<noteq> []" by (simp add: error_label_def)
  have f: "\<forall>e. parsed_reply P ?rep = Inl e \<longrightarrow>
            ?r = Content_text
                  (JObj [(''label'', JStr (error_label tc)),
                         (''data'', JObj [(''ok'', JBool False),
                                          (''error'', JStr (String_exn e))])])"
    using el by (simp add: hs_result_def asText_def error_envelope_def)
  have g: "\<forall>data. parsed_reply P ?rep = Inr data \<longrightarrow>
            (\<exists>cnt rs pg.
               ?r = Content_text
                     (JObj [(''label'', JStr (success_label tc)),
                            (''data'', JObj [(''ok'', JBool True), (''count'', cnt),
                                             (''results'', rs), (''paging'', pg)])])
               \<and> cnt = nullish (opt_chain (Some rs) ''length'') (JNum 0)
               \<and> (\<forall>xs. rs = JArr xs \<longrightarrow> cnt = JNum (int (length xs)))
               \<and> (\<forall>xs. opt_chain (Some data) ''results'' = Some (JArr xs) \<longrightarrow> rs = JArr xs)
               \<and> (opt_chain (Some data) ''results'' = None \<longrightarrow> rs = JArr [] \<and> cnt = JNum 0)
               \<and> (opt_chain (Some data) ''paging'' = None \<longrightarrow> pg = JNull))"
  proof (intro allI impI)
    fix data
    assume d: "parsed_reply P ?rep = Inr data"
    have r: "?r = Content_text
                 (JObj [(''label'', JStr (success_label tc)), (''data'', search_envelope data)])"
      using d s success_label_not_empty[of tc] by (simp add: hs_result_def asText_def)
    from search_envelope_invariant[of data] obtain cnt rs pg where i:
      "search_envelope data
         = JObj [(''ok'', JBool True), (''count'', cnt), (''results'', rs), (''paging'', pg)]"
      "cnt = nullish (opt_chain (Some rs) ''length'') (JNum 0)"
      "\<forall>xs. rs = JArr xs \<longrightarrow> cnt = JNum (int (length xs))"
      "\<forall>xs. opt_chain (Some data) ''results'' = Some (JArr xs) \<longrightarrow> rs = JArr xs"
      "opt_chain (Some data) ''results'' = None \<longrightarrow> rs = JArr [] \<and> cnt = JNum 0"
      "opt_chain (Some data) ''paging'' = None \<longrightarrow> pg = JNull"
      by (elim exE conjE)
    have r': "?r = Content_text
                     (JObj [(''label'', JStr (success_label tc)),
                            (''data'', JObj [(''ok'', JBool True), (''count'', cnt),
                                             (''results'', rs), (''paging'', pg)])])"
      by (simp only: r i(1))
    show "\<exists>cnt rs pg.
               ?r = Content_text
                     (JObj [(''label'', JStr (success_label tc)),
                            (''data'', JObj [(''ok'', JBool True), (''count'', cnt),
                                             (''results'', rs), (''paging'', pg)])])
               \<and> cnt = nullish (opt_chain (Some rs) ''length'') (JNum 0)
               \<and> (\<forall>xs. rs = JArr xs \<longrightarrow> cnt = JNum (int (length xs)))
               \<and> (\<forall>xs. opt_chain (Some data) ''results'' = Some (JArr xs) \<longrightarrow> rs = JArr xs)
               \<and> (opt_chain (Some data) ''results'' = None \<longrightarrow> rs = JArr [] \<and> cnt = JNum 0)
               \<and> (opt_chain (Some data) ''paging'' = None \<longrightarrow> pg = JNull)"
      using r' i(2) i(3) i(4) i(5) i(6)
      by (intro exI[of _ cnt] exI[of _ rs] exI[of _ pg] conjI)
  qed
  from inv f g
  show "\<exists>r rq rep. invoke P net tc tr = Some (r, tr @ [(rq, rep)])
      \<and> (\<forall>e. parsed_reply P rep = Inl e \<longrightarrow>
            r = Content_text
                  (JObj [(''label'', JStr (error_label tc)),
                         (''data'', JObj [(''ok'', JBool False),
                                          (''error'', JStr (String_exn e))])]))
      \<and> (\<forall>data. parsed_reply P rep = Inr data \<longrightarrow>
            (\<exists>cnt rs pg.
               r = Content_text
                     (JObj [(''label'', JStr (success_label tc)),
                            (''data'', JObj [(''ok'', JBool True), (''count'', cnt),
                                             (''results'', rs), (''paging'', pg)])])
               \<and> cnt = nullish (opt_chain (Some rs) ''length'') (JNum 0)
               \<and> (\<forall>xs. rs = JArr xs \<longrightarrow> cnt = JNum (int (length xs)))
               \<and> (\<forall>xs. opt_chain (Some data) ''results'' = Some (JArr xs) \<longrightarrow> rs = JArr xs)
               \<and> (opt_chain (Some data) ''results'' = None \<longrightarrow> rs = JArr [] \<and> cnt = JNum 0)
               \<and> (opt_chain (Some data) ''paging'' = None \<longrightarrow> pg = JNull)))"
    by (intro exI[of _ ?r] exI[of _ rq] exI[of _ ?rep] conjI)
qed

theorem search_count_is_results_length_witness:
  "search_style (Contacts_search (Some ''ann'') None None)
   \<and> (\<exists>tr'. invoke (\<lambda>t. Inr (JObj [(''results'', JArr [JStr ''ann 1'', JStr ''ann 2''])]))
                (\<lambda>tr rq. Inr \<lparr>status = 200, body_text = ''{...}''\<rparr>)
                (Contacts_search (Some ''ann'') None None) []
              = Some (Content_text
                        (JObj [(''label'', JStr ''contacts''),
                               (''data'',
                                  JObj [(''ok'', JBool True), (''count'', JNum 2),
                                        (''results'', JArr [JStr ''ann 1'', JStr ''ann 2'']),
                                        (''paging'', JNull)])]), tr'))"
proof -
  let ?P = "\<lambda>t. Inr (JObj [(''results'', JArr [JStr ''ann 1'', JStr ''ann 2''])]) :: string + json"
  let ?net = "(\<lambda>tr rq. Inr \<lparr>status = 200, body_text = ''{...}''\<rparr>) :: net"
  let ?tc = "Contacts_search (Some ''ann'') None None"
  have s: "search_style ?tc" by simp
  from search_count_is_results_length[of ?tc ?P ?net "[]"] s
  have "\<exists>r rq rep. invoke ?P ?net ?tc [] = Some (r, [] @ [(rq, rep)])
      \<and> (\<forall>e. parsed_reply ?P rep = Inl e \<longrightarrow>
            r = Content_text
                  (JObj [(''label'', JStr (error_label ?tc)),
                         (''data'', JObj [(''ok'', JBool False),
                                          (''error'', JStr (String_exn e))])]))
      \<and> (\<forall>data. parsed_reply ?P rep = Inr data \<longrightarrow>
            (\<exists>cnt rs pg.
               r = Content_text
                     (JObj [(''label'', JStr (success_label ?tc)),
                            (''data'', JObj [(''ok'', JBool True), (''count'', cnt),
                                             (''results'', rs), (''paging'', pg)])])
               \<and> cnt = nullish (opt_chain (Some rs) ''length'') (JNum 0)
               \<and> (\<forall>xs. rs = JArr xs \<longrightarrow> cnt = JNum (int (length xs)))
               \<and> (\<forall>xs. opt_chain (Some data) ''results'' = Some (JArr xs) \<longrightarrow> rs = JArr xs)
               \<and> (opt_chain (Some data) ''results'' = None \<longrightarrow> rs = JArr [] \<and> cnt = JNum 0)
               \<and> (opt_chain (Some data) ''paging'' = None \<longrightarrow> pg = JNull)))"
    by (rule mp)
  then obtain r rq rep where o:
    "invoke ?P ?net ?tc [] = Some (r, [] @ [(rq, rep)])"
    "\<forall>e. parsed_reply ?P rep = Inl e \<longrightarrow>
            r = Content_text
                  (JObj [(''label'', JStr (error_label ?tc)),
                         (''data'', JObj [(''ok'', JBool False),
                                          (''error'', JStr (String_exn e))])])"
    "\<forall>data. parsed_reply ?P rep = Inr data \<longrightarrow>
       (\<exists>cnt rs pg.
          r = Content_text
                (JObj [(''label'', JStr (success_label ?tc)),
                       (''data'', JObj [(''ok'', JBool True), (''count'', cnt),
                                        (''results'', rs), (''paging'', pg)])])
          \<and> cnt = nullish (opt_chain (Some rs) ''length'') (JNum 0)
          \<and> (\<forall>xs. rs = JArr xs \<longrightarrow> cnt = JNum (int (length xs)))
          \<and> (\<forall>xs. opt_chain (Some data) ''results'' = Some (JArr xs) \<longrightarrow> rs = JArr xs)
          \<and> (opt_chain (Some data) ''results'' = None \<longrightarrow> rs = JArr [] \<and> cnt = JNum 0)
          \<and> (opt_chain (Some data) ''paging'' = None \<longrightarrow> pg = JNull))"
    by (elim exE conjE)
  have rep: "rep = Inr \<lparr>status = 200, body_text = ''{...}''\<rparr>"
    using o(1) by (simp add: hubspot_contacts_search_def hsPOST_eq split: sum.splits)
  have pr: "parsed_reply ?P rep
            = Inr (JObj [(''results'', JArr [JStr ''ann 1'', JStr ''ann 2''])])"
    by (simp add: rep parsed_reply_def ok_def)
  let ?data = "JObj [(''results'', JArr [JStr ''ann 1'', JStr ''ann 2''])]"
  from o(3) pr
  have "\<exists>cnt rs pg.
          r = Content_text
                (JObj [(''label'', JStr (success_label ?tc)),
                       (''data'', JObj [(''ok'', JBool True), (''count'', cnt),
                                        (''results'', rs), (''paging'', pg)])])
          \<and> cnt = nullish (opt_chain (Some rs) ''length'') (JNum 0)
          \<and> (\<forall>xs. rs = JArr xs \<longrightarrow> cnt = JNum (int (length xs)))
          \<and> (\<forall>xs. opt_chain (Some ?data) ''results'' = Some (JArr xs) \<longrightarrow> rs = JArr xs)
          \<and> (opt_chain (Some ?data) ''results'' = None \<longrightarrow> rs = JArr [] \<and> cnt = JNum 0)
          \<and> (opt_chain (Some ?data) ''paging'' = None \<longrightarrow> pg = JNull)"
    by (elim allE[of _ ?data] impE) assumption+
  then obtain cnt rs pg where e:
    "r = Content_text
           (JObj [(''label'', JStr (success_label ?tc)),
                  (''data'', JObj [(''ok'', JBool True), (''count'', cnt),
                                   (''results'', rs), (''paging'', pg)])])"
    "cnt = nullish (opt_chain (Some rs) ''length'') (JNum 0)"
    "\<forall>xs. rs = JArr xs \<longrightarrow> cnt = JNum (int (length xs))"
    "\<forall>xs. opt_chain (Some ?data) ''results'' = Some (JArr xs) \<longrightarrow> rs = JArr xs"
    "opt_chain (Some ?data) ''results'' = None \<longrightarrow> rs = JArr [] \<and> cnt = JNum 0"
    "opt_chain (Some ?data) ''paging'' = None \<longrightarrow> pg = JNull"
    by (elim exE conjE)
  have rs: "rs = JArr [JStr ''ann 1'', JStr ''ann 2'']" using e(4) by (simp add: opt_chain_def)
  have cnt: "cnt = JNum 2" using e(3) rs by simp
  have pg: "pg = JNull" using e(6) by (simp add: opt_chain_def)
  show ?thesis using s o(1) by (simp add: e(1) rs cnt pg)
qed

section \<open>Remote failures: the claim\<close>

lemma digits_not_ok: "digits n \<noteq> ''ok''"
proof
  assume a: "digits n = ''ok''"
  have "last (digits n) \<in> set ''0123456789''"
  proof (cases "n < 10")
    case True
    then have "''0123456789'' ! n \<in> set ''0123456789''" by (intro nth_mem) simp
    then show ?thesis using True by (subst digits.simps) simp
  next
    case False
    have "''0123456789'' ! (n mod 10) \<in> set ''0123456789''" by (intro nth_mem) simp
    then show ?thesis using False by (subst digits.simps) simp
  qed
  then show False by (simp add: a)
qed

lemma fold_update_other:
  "k \<notin> fst ` set fs \<Longrightarrow>
   map_of (fold (\<lambda>(k, x) acc. AList.update k x acc) fs base) k = map_of base k"
proof (induction fs arbitrary: base)
  case Nil
  show ?case by simp
next
  case (Cons p fs)
  obtain a b where p: "p = (a, b)" by (cases p)
  from Cons.prems p have "k \<notin> fst ` set fs" "k \<noteq> a" by auto
  then show ?case using Cons.IH[of "AList.update a b base"] by (simp add: p update_conv')
qed

lemma spread_text_keeps_ok:
  "map_of (spread [(''ok'', JBool True)] (JStr t)) ''ok'' = Some (JBool True)"
proof -
  have "''ok'' \<notin> fst ` set (zip (map digits [0..<length t]) (map (\<lambda>c. JStr [c]) t))"
  proof
    assume "''ok'' \<in> fst ` set (zip (map digits [0..<length t]) (map (\<lambda>c. JStr [c]) t))"
    then obtain v where "(''ok'', v) \<in> set (zip (map digits [0..<length t]) (map (\<lambda>c. JStr [c]) t))"
      by force
    then have "''ok'' \<in> set (map digits [0..<length t])" by (rule set_zip_leftD)
    then show False using digits_not_ok by force
  qed
  then show ?thesis by (simp add: spread_def fold_update_other)
qed

lemma hs_result_text_ok:
  "\<not> parses_itself tc \<Longrightarrow>
   \<exists>payload. hs_result tc (Inr (JStr t))
               = Content_text (JObj [(''label'', JStr (success_label tc)), (''data'', payload)])
     \<and> payload = (if search_style tc then search_envelope (JStr t)
                   else JObj (spread [(''ok'', JBool True)] (JStr t)))
     \<and> get_prop payload ''ok'' = Some (JBool True)"
  using success_label_not_empty[of tc]
  by (simp add: hs_result_def asText_def search_envelope_def spread_text_keeps_ok)

text \<open>
  C7. The claim: every remote failure, a body that is not JSON included, becomes a
  failure envelope. In \<^verbatim>\<open>hsPOST\<close> and \<^verbatim>\<open>hsGET\<close> the catch around
  \<^verbatim>\<open>JSON.parse\<close> returns the text, so a reply with status 200 and a body that does not
  parse is data to the contact search: it answers \<open>ok: true\<close> with no results.
\<close>

theorem non_json_body_is_reported_as_success:
  "(\<lambda>t. Inl ''Unexpected token < in JSON at position 0'' :: string + json) ''<html>''
     = Inl ''Unexpected token < in JSON at position 0''
   \<and> (\<exists>tr'. invoke (\<lambda>t. Inl ''Unexpected token < in JSON at position 0'')
                (\<lambda>tr rq. Inr \<lparr>status = 200, body_text = ''<html>''\<rparr>)
                (Contacts_search None None None) []
              = Some (Content_text
                        (JObj [(''label'', JStr ''contacts''),
                               (''data'',
                                  JObj [(''ok'', JBool True), (''count'', JNum 0),
                                        (''results'', JArr []), (''paging'', JNull)])]), tr'))"
  by (simp add: hubspot_contacts_search_def hsPOST_eq parsed_reply_def ok_def asText_def
        search_envelope_def nullish_def opt_chain_def)

text \<open>
  C7 as amended. Every invocation of one of the eleven tools returns an envelope (the
  handler does not throw and does not hang), and for each call it made:
  a reply with a status outside 200..299 gives the failure envelope whose error text ends
  with the status code, a blank and the body text as received; a rejected call gives the
  failure envelope with the text of that exception; a body that does not parse, on a
  success status, gives the failure envelope with the parser's message in the two tools
  that parse the body themselves, and in the other nine the text is taken as the data and
  the answer is an envelope with \<open>ok: true\<close> under the tool's success label.
\<close>

theorem remote_failures_become_envelopes:
  "\<exists>r new. invoke P net tc tr = Some (r, tr @ new)
     \<and> (\<forall>rq res. (rq, Inr res) \<in> set new \<and> \<not> ok res \<longrightarrow>
          (\<exists>pre. r = Content_text
                        (JObj [(''label'', JStr (error_label tc)),
                               (''data'',
                                  JObj [(''ok'', JBool False),
                                        (''error'',
                                           JStr (pre @ digits (status res) @ '' ''
                                                 @ body_text res))])])))
     \<and> (\<forall>rq e. (rq, Inl e) \<in> set new \<longrightarrow>
          r = Content_text
                (JObj [(''label'', JStr (error_label tc)),
                       (''data'', JObj [(''ok'', JBool False),
                                        (''error'', JStr (String_exn e))])]))
     \<and> (\<forall>rq res m. (rq, Inr res) \<in> set new \<and> ok res \<and> P (body_text res) = Inl m \<longrightarrow>
          (if parses_itself tc
           then r = Content_text
                      (JObj [(''label'', JStr (error_label tc)),
                             (''data'', JObj [(''ok'', JBool False),
                                              (''error'', JStr (''SyntaxError: '' @ m))])])
           else \<exists>payload.
                  r = Content_text
                        (JObj [(''label'', JStr (success_label tc)), (''data'', payload)])
                  \<and> payload = (if search_style tc then search_envelope (JStr (body_text res))
                                else JObj (spread [(''ok'', JBool True)]
                                             (JStr (body_text res))))
                  \<and> get_prop payload ''ok'' = Some (JBool True)))"
proof (cases "parses_itself tc")
  case False
  from invoke_hs[OF False, of P net tr] obtain rq where inv:
    "invoke P net tc tr
     = Some (hs_result tc (parsed_reply P (net tr rq)), tr @ [(rq, net tr rq)])"
    by blast
  let ?r = "hs_result tc (parsed_reply P (net tr rq))"
  let ?new = "[(rq, net tr rq)]"
  have el: "error_label tc \<noteq> []" by (simp add: error_label_def)
  have p1: "\<forall>rq' res. (rq', Inr res) \<in> set ?new \<and> \<not> ok res \<longrightarrow>
          (\<exists>pre. ?r = Content_text
                        (JObj [(''label'', JStr (error_label tc)),
                               (''data'',
                                  JObj [(''ok'', JBool False),
                                        (''error'',
                                           JStr (pre @ digits (status res) @ '' ''
                                                 @ body_text res))])]))"
  proof (intro allI impI)
    fix rq' res
    assume "(rq', Inr res) \<in> set ?new \<and> \<not> ok res"
    then have "net tr rq = Inr res" "\<not> ok res" by auto
    then have "parsed_reply P (net tr rq)
               = Inl (Error (''HubSpot '' @ digits (status res) @ '' '' @ body_text res))"
      by (simp add: parsed_reply_def)
    then have "?r = Content_text
                        (JObj [(''label'', JStr (error_label tc)),
                               (''data'',
                                  JObj [(''ok'', JBool False),
                                        (''error'',
                                           JStr (''Error: HubSpot '' @ digits (status res) @ '' ''
                                                 @ body_text res))])])"
      using el by (simp add: hs_result_def asText_def error_envelope_def)
    then show "\<exists>pre. ?r = Content_text
                        (JObj [(''label'', JStr (error_label tc)),
                               (''data'',
                                  JObj [(''ok'', JBool False),
                                        (''error'',
                                           JStr (pre @ digits (status res) @ '' ''
                                                 @ body_text res))])])"
      by (intro exI[of _ "''Error: HubSpot ''"])
  qed
  have p2: "\<forall>rq' e. (rq', Inl e) \<in> set ?new \<longrightarrow>
          ?r = Content_text
                (JObj [(''label'', JStr (error_label tc)),
                       (''data'', JObj [(''ok'', JBool False),
                                        (''error'', JStr (String_exn e))])])"
  proof (intro allI impI)
    fix rq' e
    assume "(rq', Inl e) \<in> set ?new"
    then have "net tr rq = Inl e" by auto
    then show "?r = Content_text
                (JObj [(''label'', JStr (error_label tc)),
                       (''data'', JObj [(''ok'', JBool False),
                                        (''error'', JStr (String_exn e))])])"
      using el by (simp add: parsed_reply_def hs_result_def asText_def error_envelope_def)
  qed
  have p3: "\<forall>rq' res m. (rq', Inr res) \<in> set ?new \<and> ok res \<and> P (body_text res) = Inl m \<longrightarrow>
          (if parses_itself tc
           then ?r = Content_text
                      (JObj [(''label'', JStr (error_label tc)),
                             (''data'', JObj [(''ok'', JBool False),
                                              (''error'', JStr (''SyntaxError: '' @ m))])])
           else \<exists>payload.
                  ?r = Content_text
                        (JObj [(''label'', JStr (success_label tc)), (''data'', payload)])
                  \<and> payload = (if search_style tc then search_envelope (JStr (body_text res))
                                else JObj (spread [(''ok'', JBool True)]
                                             (JStr (body_text res))))
                  \<and> get_prop payload ''ok'' = Some (JBool True))"
  proof (intro allI impI)
    fix rq' res m
    assume "(rq', Inr res) \<in> set ?new \<and> ok res \<and> P (body_text res) = Inl m"
    then have "net tr rq = Inr res" "ok res" "P (body_text res) = Inl m" by auto
    then have "parsed_reply P (net tr rq) = Inr (JStr (body_text res))"
      by (simp add: parsed_reply_def)
    then show "(if parses_itself tc
           then ?r = Content_text
                      (JObj [(''label'', JStr (error_label tc)),
                             (''data'', JObj [(''ok'', JBool False),
                                              (''error'', JStr (''SyntaxError: '' @ m))])])
           else \<exists>payload.
                  ?r = Content_text
                        (JObj [(''label'', JStr (success_label tc)), (''data'', payload)])
                  \<and> payload = (if search_style tc then search_envelope (JStr (body_text res))
                                else JObj (spread [(''ok'', JBool True)]
                                             (JStr (body_text res))))
                  \<and> get_prop payload ''ok'' = Some (JBool True))"
      using False hs_result_text_ok[OF False, of "body_text res"] by (simp only: if_False)
  qed
  show ?thesis
    using inv p1 p2 p3 by (intro exI[of _ ?r] exI[of _ ?new] conjI)
next
  case True
  then consider (batch) ob ids ps where "tc = Batch_read ob ids ps"
    | (assoc) f t ids where "tc = Associations_batch f t ids"
    by (cases tc) simp_all
  then show ?thesis
  proof cases
    case batch
    from batch_read_outcome[of P net ob ids ps tr] obtain r new where o:
      "hubspot_batch_read P net ob ids ps tr = Some (r, tr @ new)"
      "\<forall>rq res. (rq, Inr res) \<in> set new \<and> \<not> ok res \<longrightarrow>
          r = asText (error_envelope
                 (Error (''HubSpot batch '' @ ob @ '' '' @ digits (status res) @ '' ''
                         @ body_text res)))
                (Some ''batch_read_error'')"
      "\<forall>rq e. (rq, Inl e) \<in> set new \<longrightarrow>
          r = asText (error_envelope e) (Some ''batch_read_error'')"
      "\<forall>rq res m. (rq, Inr res) \<in> set new \<and> ok res \<and> P (body_text res) = Inl m \<longrightarrow>
          r = asText (error_envelope (SyntaxError m)) (Some ''batch_read_error'')"
      by blast
    have i: "invoke P net tc tr = Some (r, tr @ new)" using o(1) batch by simp
    have p1: "\<forall>rq res. (rq, Inr res) \<in> set new \<and> \<not> ok res \<longrightarrow>
          (\<exists>pre. r = Content_text
                        (JObj [(''label'', JStr (error_label tc)),
                               (''data'',
                                  JObj [(''ok'', JBool False),
                                        (''error'',
                                           JStr (pre @ digits (status res) @ '' ''
                                                 @ body_text res))])]))"
    proof (intro allI impI)
      fix rq res
      assume "(rq, Inr res) \<in> set new \<and> \<not> ok res"
      with o(2) have "r = asText (error_envelope
                 (Error (''HubSpot batch '' @ ob @ '' '' @ digits (status res) @ '' ''
                         @ body_text res)))
                (Some ''batch_read_error'')"
        by blast
      then have "r = Content_text
                        (JObj [(''label'', JStr (error_label tc)),
                               (''data'',
                                  JObj [(''ok'', JBool False),
                                        (''error'',
                                           JStr ((''Error: HubSpot batch '' @ ob @ '' '')
                                                 @ digits (status res) @ '' ''
                                                 @ body_text res))])])"
        by (simp add: asText_def error_envelope_def error_label_def batch)
      then show "\<exists>pre. r = Content_text
                        (JObj [(''label'', JStr (error_label tc)),
                               (''data'',
                                  JObj [(''ok'', JBool False),
                                        (''error'',
                                           JStr (pre @ digits (status res) @ '' ''
                                                 @ body_text res))])])"
        by (intro exI[of _ "''Error: HubSpot batch '' @ ob @ '' ''"])
    qed
    have p2: "\<forall>rq e. (rq, Inl e) \<in> set new \<longrightarrow>
          r = Content_text
                (JObj [(''label'', JStr (error_label tc)),
                       (''data'', JObj [(''ok'', JBool False),
                                        (''error'', JStr (String_exn e))])])"
      using o(3) by (auto simp: asText_def error_envelope_def error_label_def batch)
    have p3: "\<forall>rq res m. (rq, Inr res) \<in> set new \<and> ok res \<and> P (body_text res) = Inl m \<longrightarrow>
          (if parses_itself tc
           then r = Content_text
                      (JObj [(''label'', JStr (error_label tc)),
                             (''data'', JObj [(''ok'', JBool False),
                                              (''error'', JStr (''SyntaxError: '' @ m))])])
           else \<exists>payload.
                  r = Content_text
                        (JObj [(''label'', JStr (success_label tc)), (''data'', payload)])
                  \<and> payload = (if search_style tc then search_envelope (JStr (body_text res))
                                else JObj (spread [(''ok'', JBool True)]
                                             (JStr (body_text res))))
                  \<and> get_prop payload ''ok'' = Some (JBool True))"
    proof (intro allI impI)
      fix rq res m
      assume "(rq, Inr res) \<in> set new \<and> ok res \<and> P (body_text res) = Inl m"
      with o(4) have "r = asText (error_envelope (SyntaxError m)) (Some ''batch_read_error'')"
        by blast
      then have "r = Content_text
                      (JObj [(''label'', JStr (error_label tc)),
                             (''data'', JObj [(''ok'', JBool False),
                                              (''error'', JStr (''SyntaxError: '' @ m))])])"
        by (simp add: asText_def error_envelope_def error_label_def batch)
      then show "(if parses_itself tc
           then r = Content_text
                      (JObj [(''label'', JStr (error_label tc)),
                             (''data'', JObj [(''ok'', JBool False),
                                              (''error'', JStr (''SyntaxError: '' @ m))])])
           else \<exists>payload.
                  r = Content_text
                        (JObj [(''label'', JStr (success_label tc)), (''data'', payload)])
                  \<and> payload = (if search_style tc then search_envelope (JStr (body_text res))
                                else JObj (spread [(''ok'', JBool True)]
                                             (JStr (body_text res))))
                  \<and> get_prop payload ''ok'' = Some (JBool True))"
        using True by (simp only: if_True)
    qed
    show ?thesis using i p1 p2 p3 by (intro exI[of _ r] exI[of _ new] conjI)
  next
    case assoc
    let ?req = "associations_request f t ids"
    let ?rep = "net tr ?req"
    let ?new = "[(?req, ?rep)]"
    define r where "r =
       (case ?rep of
          Inl e \<Rightarrow> asText (error_envelope e) (Some ''associations_error'')
        | Inr res \<Rightarrow>
            if \<not> ok res
            then asText (error_envelope
                   (Error (''HubSpot associations '' @ f @ ''->'' @ t @ '' ''
                           @ digits (status res) @ '' '' @ body_text res)))
                   (Some ''associations_error'')
            else (case P (body_text res) of
                    Inl m \<Rightarrow> asText (error_envelope (SyntaxError m)) (Some ''associations_error'')
                  | Inr data \<Rightarrow>
                      asText (JObj (spread [(''ok'', JBool True)] data)) (Some ''associations'')))"
    have i: "invoke P net tc tr = Some (r, tr @ ?new)"
      by (simp add: r_def assoc hubspot_associations_batch_def fetch_eq split: sum.splits)
    have p1: "\<forall>rq res. (rq, Inr res) \<in> set ?new \<and> \<not> ok res \<longrightarrow>
          (\<exists>pre. r = Content_text
                        (JObj [(''label'', JStr (error_label tc)),
                               (''data'',
                                  JObj [(''ok'', JBool False),
                                        (''error'',
                                           JStr (pre @ digits (status res) @ '' ''
                                                 @ body_text res))])]))"
    proof (intro allI impI)
      fix rq res
      assume "(rq, Inr res) \<in> set ?new \<and> \<not> ok res"
      then have "?rep = Inr res" "\<not> ok res" by auto
      then have "r = Content_text
                        (JObj [(''label'', JStr (error_label tc)),
                               (''data'',
                                  JObj [(''ok'', JBool False),
                                        (''error'',
                                           JStr ((''Error: HubSpot associations '' @ f @ ''->''
                                                  @ t @ '' '')
                                                 @ digits (status res) @ '' ''
                                                 @ body_text res))])])"
        by (simp add: r_def assoc asText_def error_envelope_def error_label_def)
      then show "\<exists>pre. r = Content_text
                        (JObj [(''label'', JStr (error_label tc)),
                               (''data'',
                                  JObj [(''ok'', JBool False),
                                        (''error'',
                                           JStr (pre @ digits (status res) @ '' ''
                                                 @ body_text res))])])"
        by (intro exI[of _ "''Error: HubSpot associations '' @ f @ ''->'' @ t @ '' ''"])
    qed
    have p2: "\<forall>rq e. (rq, Inl e) \<in> set ?new \<longrightarrow>
          r = Content_text
                (JObj [(''label'', JStr (error_label tc)),
                       (''data'', JObj [(''ok'', JBool False),
                                        (''error'', JStr (String_exn e))])])"
    proof (intro allI impI)
      fix rq e
      assume "(rq, Inl e) \<in> set ?new"
      then have "?rep = Inl e" by auto
      then show "r = Content_text
                (JObj [(''label'', JStr (error_label tc)),
                       (''data'', JObj [(''ok'', JBool False),
                                        (''error'', JStr (String_exn e))])])"
        by (simp add: r_def assoc asText_def error_envelope_def error_label_def)
    qed
    have p3: "\<forall>rq res m. (rq, Inr res) \<in> set ?new \<and> ok res \<and> P (body_text res) = Inl m \<longrightarrow>
          (if parses_itself tc
           then r = Content_text
                      (JObj [(''label'', JStr (error_label tc)),
                             (''data'', JObj [(''ok'', JBool False),
                                              (''error'', JStr (''SyntaxError: '' @ m))])])
           else \<exists>payload.
                  r = Content_text
                        (JObj [(''label'', JStr (success_label tc)), (''data'', payload)])
                  \<and> payload = (if search_style tc then search_envelope (JStr (body_text res))
                                else JObj (spread [(''ok'', JBool True)]
                                             (JStr (body_text res))))
                  \<and> get_prop payload ''ok'' = Some (JBool True))"
    proof (intro allI impI)
      fix rq res m
      assume "(rq, Inr res) \<in> set ?new \<and> ok res \<and> P (body_text res) = Inl m"
      then have "?rep = Inr res" "ok res" "P (body_text res) = Inl m" by auto
      then have "r = Content_text
                      (JObj [(''label'', JStr (error_label tc)),
                             (''data'', JObj [(''ok'', JBool False),
                                              (''error'', JStr (''SyntaxError: '' @ m))])])"
        by (simp add: r_def assoc asText_def error_envelope_def error_label_def)
      then show "(if parses_itself tc
           then r = Content_text
                      (JObj [(''label'', JStr (error_label tc)),
                             (''data'', JObj [(''ok'', JBool False),
                                              (''error'', JStr (''SyntaxError: '' @ m))])])
           else \<exists>payload.
                  r = Content_text
                        (JObj [(''label'', JStr (success_label tc)), (''data'', payload)])
                  \<and> payload = (if search_style tc then search_envelope (JStr (body_text res))
                                else JObj (spread [(''ok'', JBool True)]
                                             (JStr (body_text res))))
                  \<and> get_prop payload ''ok'' = Some (JBool True))"
        using True by (simp only: if_True)
    qed
    show ?thesis using i p1 p2 p3 by (intro exI[of _ r] exI[of _ ?new] conjI)
  qed
qed

theorem remote_failures_become_envelopes_witness:
  "\<not> ok \<lparr>status = 404, body_text = ''not found''\<rparr>
   \<and> (\<exists>new. invoke (\<lambda>t. Inl ''Unexpected token'')
                (\<lambda>tr rq. Inr \<lparr>status = 404, body_text = ''not found''\<rparr>)
                (Owners_list None None) []
              = Some (Content_text
                        (JObj [(''label'', JStr ''owners_error''),
                               (''data'',
                                  JObj [(''ok'', JBool False),
                                        (''error'', JStr ''Error: HubSpot 404 not found'')])]),
                      new)
        \<and> (\<lparr>req_method = GET, req_path = ''/crm/v3/owners/'',
              req_query = [(''limit'', ''100'')], req_body = None\<rparr>,
            Inr \<lparr>status = 404, body_text = ''not found''\<rparr>) \<in> set new)
   \<and> (\<exists>new. invoke (\<lambda>t. Inl ''Unexpected token'')
                (\<lambda>tr rq. Inl (FetchError ''socket hang up''))
                (Pipelines None) []
              = Some (Content_text
                        (JObj [(''label'', JStr ''pipelines_error''),
                               (''data'',
                                  JObj [(''ok'', JBool False),
                                        (''error'', JStr ''FetchError: socket hang up'')])]),
                      new)
        \<and> (\<lparr>req_method = GET, req_path = ''/crm/v3/pipelines/deals'',
              req_query = [], req_body = None\<rparr>,
            Inl (FetchError ''socket hang up'')) \<in> set new)
   \<and> ok \<lparr>status = 200, body_text = ''<html>''\<rparr>
   \<and> parses_itself (Associations_batch ''companies'' ''deals'' [''1''])
   \<and> (\<exists>new. invoke (\<lambda>t. Inl ''Unexpected token'')
                (\<lambda>tr rq. Inr \<lparr>status = 200, body_text = ''<html>''\<rparr>)
                (Associations_batch ''companies'' ''deals'' [''1'']) []
              = Some (Content_text
                        (JObj [(''label'', JStr ''associations_error''),
                               (''data'',
                                  JObj [(''ok'', JBool False),
                                        (''error'', JStr ''SyntaxError: Unexpected token'')])]),
                      new)
        \<and> (associations_request ''companies'' ''deals'' [''1''],
            Inr \<lparr>status = 200, body_text = ''<html>''\<rparr>) \<in> set new)"
proof -
  let ?P = "\<lambda>t. Inl ''Unexpected token'' :: string + json"
  let ?res = "\<lparr>status = 404, body_text = ''not found''\<rparr>"
  let ?net = "(\<lambda>tr rq. Inr ?res) :: net"
  let ?rq = "\<lparr>req_method = GET, req_path = ''/crm/v3/owners/'',
               req_query = [(''limit'', ''100'')], req_body = None\<rparr>"
  have bad: "\<not> ok ?res" by (simp add: ok_def)
  have d404: "digits 404 = ''404''" by (simp add: digits.simps)
  have q: "searchParams [(''after'', qstring None), (''limit'', QNum (default None 100))]
           = [(''limit'', ''100'')]"
    by (simp add: searchParams_def qstring_def default_def String_int_def digits_100)
  from remote_failures_become_envelopes[of ?P ?net "Owners_list None None" "[]"]
  obtain r new where o:
    "invoke ?P ?net (Owners_list None None) [] = Some (r, [] @ new)"
    "\<forall>rq res. (rq, Inr res) \<in> set new \<and> \<not> ok res \<longrightarrow>
          (\<exists>pre. r = Content_text
                        (JObj [(''label'', JStr (error_label (Owners_list None None))),
                               (''data'',
                                  JObj [(''ok'', JBool False),
                                        (''error'',
                                           JStr (pre @ digits (status res) @ '' ''
                                                 @ body_text res))])]))"
    by (elim exE conjE)
  have n: "new = [(?rq, Inr ?res)]"
    using o(1) by (simp add: hubspot_owners_list_def hsGET_eq q split: sum.splits)
  have r: "r = Content_text
                 (JObj [(''label'', JStr ''owners_error''),
                        (''data'',
                           JObj [(''ok'', JBool False),
                                 (''error'', JStr ''Error: HubSpot 404 not found'')])])"
    using o(1)
    by (simp add: hubspot_owners_list_def hsGET_eq q parsed_reply_def ok_def d404 asText_def
          error_envelope_def split: sum.splits)
  have a: "\<exists>new. invoke ?P ?net (Owners_list None None) []
              = Some (Content_text
                        (JObj [(''label'', JStr ''owners_error''),
                               (''data'',
                                  JObj [(''ok'', JBool False),
                                        (''error'', JStr ''Error: HubSpot 404 not found'')])]),
                      new)
        \<and> (?rq, Inr ?res) \<in> set new"
    using o(1) by (intro exI[of _ new]) (simp add: n r)
  have b: "\<exists>new. invoke ?P (\<lambda>tr rq. Inl (FetchError ''socket hang up'')) (Pipelines None) []
              = Some (Content_text
                        (JObj [(''label'', JStr ''pipelines_error''),
                               (''data'',
                                  JObj [(''ok'', JBool False),
                                        (''error'', JStr ''FetchError: socket hang up'')])]),
                      new)
        \<and> (\<lparr>req_method = GET, req_path = ''/crm/v3/pipelines/deals'',
              req_query = [], req_body = None\<rparr>,
            Inl (FetchError ''socket hang up'')) \<in> set new"
    by (simp add: hubspot_pipelines_def hsGET_eq parsed_reply_def asText_def error_envelope_def
          default_def searchParams_def)
  have c: "\<exists>new. invoke ?P (\<lambda>tr rq. Inr \<lparr>status = 200, body_text = ''<html>''\<rparr>)
                (Associations_batch ''companies'' ''deals'' [''1'']) []
              = Some (Content_text
                        (JObj [(''label'', JStr ''associations_error''),
                               (''data'',
                                  JObj [(''ok'', JBool False),
                                        (''error'', JStr ''SyntaxError: Unexpected token'')])]),
                      new)
        \<and> (associations_request ''companies'' ''deals'' [''1''],
            Inr \<lparr>status = 200, body_text = ''<html>''\<rparr>) \<in> set new"
    by (simp add: hubspot_associations_batch_def fetch_eq ok_def asText_def error_envelope_def)
  have okr: "ok \<lparr>status = 200, body_text = ''<html>''\<rparr>" by (simp add: ok_def)
  from bad a b okr c show ?thesis by simp
qed

end
